theory Spec2Isabelle
  imports Main "HOL-Library.Sublist" "HOL-Library.Product_Lexorder"
begin

section \<open>Errors of the trace package\<close>

text \<open>
  The Go code reports failures through \<^verbatim>\<open>github.com/gravitational/trace\<close>:
  \<^verbatim>\<open>trace.NotFound(format, args...)\<close>, \<^verbatim>\<open>trace.BadParameter(...)\<close> and
  \<^verbatim>\<open>trace.AlreadyExists(...)\<close> build an error of the given kind, \<^verbatim>\<open>trace.Wrap(err)\<close> and
  \<^verbatim>\<open>trace.Wrap(err, format, args...)\<close> put a frame (and an optional message) around an
  existing error, and \<^verbatim>\<open>trace.IsNotFound\<close> looks through the frames at the kind of the
  innermost error. An error that does not come from trace (an \<^verbatim>\<open>fmt.Errorf\<close>, an I/O error)
  has the kind \<open>Other\<close>.

  A message is kept as the call site writes it: the format string and the list of its
  arguments, unrendered.
\<close>

datatype kind = NotFound | BadParameter | AlreadyExists | Other

datatype error =
    Err kind string "string list"
  | Wrap error string "string list"

fun IsNotFound :: "error \<Rightarrow> bool" where
  "IsNotFound (Err k f as) = (k = NotFound)"
| "IsNotFound (Wrap e f as) = IsNotFound e"

text \<open>\<^verbatim>\<open>trace.Wrap(err)\<close> with no message.\<close>

abbreviation Wrap0 :: "error \<Rightarrow> error" where
  "Wrap0 e \<equiv> Wrap e [] []"

text \<open>The innermost error of a chain of frames.\<close>

fun Unwrap :: "error \<Rightarrow> error" where
  "Unwrap (Err k f as) = Err k f as"
| "Unwrap (Wrap e f as) = Unwrap e"

section \<open>Package update: locating the operation plan\<close>

record Operation =
  op_ID :: string
  op_SiteDomain :: string
  op_Type :: string

text \<open>
  The part of \<^verbatim>\<open>storage.Backend\<close> that \<^verbatim>\<open>GetOperationPlan\<close> calls. A Go method returning
  \<^verbatim>\<open>(*T, error)\<close> is a pair of an optional value and an optional error: the code below
  inspects both components of the plan lookup.
\<close>

record ('plan, 'chg) Backend =
  b_GetOperationPlan :: "string \<Rightarrow> string \<Rightarrow> 'plan option \<times> error option"
  b_GetOperationPlanChangelog :: "string \<Rightarrow> string \<Rightarrow> 'chg list \<times> error option"

text \<open>
  \<^verbatim>\<open>update.GetOperationPlan\<close>. The helper \<^verbatim>\<open>storage.GetLastOperation\<close> and the resolver
  \<^verbatim>\<open>fsm.ResolvePlan\<close> live in other packages and are parameters. The inner case on \<open>err\<close>
  is the test \<^verbatim>\<open>err != nil && !trace.IsNotFound(err)\<close>: it yields the error to return.
\<close>

definition plan_not_found_format :: string where
  "plan_not_found_format =
     ''%q does not have a plan, use 'gravity plan --init' to initialize it''"

definition GetOperationPlan ::
  "(('plan, 'chg) Backend \<Rightarrow> error + Operation) \<Rightarrow> ('plan \<Rightarrow> 'chg list \<Rightarrow> 'plan) \<Rightarrow>
   ('plan, 'chg) Backend \<Rightarrow> error + 'plan" where
  "GetOperationPlan storage_GetLastOperation ResolvePlan b =
     (case storage_GetLastOperation b of
        Inl err \<Rightarrow> Inl (Wrap0 err)
      | Inr op \<Rightarrow>
          (case b_GetOperationPlan b (op_SiteDomain op) (op_ID op) of
             (plan, err) \<Rightarrow>
               (case (case err of None \<Rightarrow> None
                               | Some e \<Rightarrow> if \<not> IsNotFound e then Some e else None) of
                  Some e \<Rightarrow> Inl (Wrap0 e)
                | None \<Rightarrow>
                    (case plan of
                       None \<Rightarrow> Inl (Err NotFound plan_not_found_format [op_Type op])
                     | Some base \<Rightarrow>
                         (case b_GetOperationPlanChangelog b (op_SiteDomain op) (op_ID op) of
                            (changelog, Some e) \<Rightarrow> Inl (Wrap0 e)
                          | (changelog, None) \<Rightarrow> Inr (ResolvePlan base changelog))))))"

section \<open>Package update: does the system need an update\<close>

text \<open>
  \<^verbatim>\<open>loc.Locator\<close> names a package; \<^verbatim>\<open>schema.Manifest\<close> is used through three lookups
  (\<^verbatim>\<open>NodeProfiles.ByName\<close>, \<^verbatim>\<open>RuntimePackage\<close>, \<^verbatim>\<open>Dependencies.ByName\<close>), each returning a
  value or an error. The manifest is the record of these lookups.
\<close>

record Locator =
  loc_Repository :: string
  loc_Name :: string
  loc_Version :: string

record NodeProfile =
  profile_Name :: string

record Manifest =
  NodeProfiles_ByName :: "string \<Rightarrow> error + NodeProfile"
  RuntimePackage :: "NodeProfile \<Rightarrow> error + Locator"
  Dependencies_ByName :: "string \<Rightarrow> error + Locator"

record Application =
  app_Manifest :: Manifest

text \<open>
  Constants of the packages \<^verbatim>\<open>loc\<close>, \<^verbatim>\<open>schema\<close>, \<^verbatim>\<open>constants\<close> and \<^verbatim>\<open>defaults\<close> that the
  code names. Their values are fixed elsewhere in the repository; the functions below take
  them as parameters. \<^verbatim>\<open>schema.ServiceRole\<close> is a string type.
\<close>

record loc_pkg =
  LegacyPlanetMaster :: Locator
  LegacyPlanetNode :: Locator

record schema_pkg =
  ServiceRoleMaster :: string
  ServiceRoleNode :: string

record constants_pkg =
  TeleportPackage :: string
  FieldPhase :: string
  FieldAdvertiseIP :: string
  FieldHostname :: string

definition runtime_not_found_format :: string where
  "runtime_not_found_format =
     ''runtime package for profile %v (cluster role %v) not found in manifest''"

definition getRuntimePackage ::
  "loc_pkg \<Rightarrow> schema_pkg \<Rightarrow> Manifest \<Rightarrow> NodeProfile \<Rightarrow> string \<Rightarrow> error + Locator" where
  "getRuntimePackage loc schema manifest profile clusterRole =
     (case RuntimePackage manifest profile of
        Inl err \<Rightarrow>
          if \<not> IsNotFound err then Inl (Wrap0 err)
          else
            (let packageName =
                   (if clusterRole = ServiceRoleNode schema
                    then loc_Name (LegacyPlanetNode loc)
                    else loc_Name (LegacyPlanetMaster loc))
             in case Dependencies_ByName manifest packageName of
                  Inl err' \<Rightarrow>
                    Inl (Err NotFound runtime_not_found_format
                           [profile_Name profile, clusterRole])
                | Inr runtimePackage \<Rightarrow> Inr runtimePackage)
      | Inr runtimePackage \<Rightarrow> Inr runtimePackage)"

text \<open>
  \<^verbatim>\<open>systemNeedsUpdate\<close> returns \<^verbatim>\<open>(planetNeedsUpdate, teleportNeedsUpdate, err)\<close>. The
  method \<^verbatim>\<open>Locator.SemVer\<close> (parsing the version string) is a parameter; the parsed
  versions are values of a preorder whose strict part is \<^verbatim>\<open>LessThan\<close>.
\<close>

definition failed :: "error \<Rightarrow> bool \<times> bool \<times> error option" where
  "failed err = (False, False, Some (Wrap0 err))"

definition systemNeedsUpdate ::
  "(Locator \<Rightarrow> error + 'v::preorder) \<Rightarrow> constants_pkg \<Rightarrow> loc_pkg \<Rightarrow> schema_pkg \<Rightarrow>
   string \<Rightarrow> Application \<Rightarrow> Application \<Rightarrow> bool \<times> bool \<times> error option" where
  "systemNeedsUpdate SemVer constants loc schema profile installed update =
     (case NodeProfiles_ByName (app_Manifest installed) profile of
        Inl err \<Rightarrow> failed err
      | Inr installedProfile \<Rightarrow>
     (case NodeProfiles_ByName (app_Manifest update) profile of
        Inl err \<Rightarrow> failed err
      | Inr updateProfile \<Rightarrow>
     (case RuntimePackage (app_Manifest update) updateProfile of
        Inl err \<Rightarrow> failed err
      | Inr updateRuntimePackage \<Rightarrow>
     (case SemVer updateRuntimePackage of
        Inl err \<Rightarrow> failed err
      | Inr updateRuntimeVersion \<Rightarrow>
     (case getRuntimePackage loc schema (app_Manifest installed) installedProfile
             (ServiceRoleMaster schema) of
        Inl err \<Rightarrow> failed err
      | Inr installedRuntimePackage \<Rightarrow>
     (case SemVer installedRuntimePackage of
        Inl err \<Rightarrow> failed err
      | Inr installedRuntimeVersion \<Rightarrow>
     (case Dependencies_ByName (app_Manifest installed) (TeleportPackage constants) of
        Inl err \<Rightarrow> failed err
      | Inr installedTeleportPackage \<Rightarrow>
     (case SemVer installedTeleportPackage of
        Inl err \<Rightarrow> failed err
      | Inr installedTeleportVersion \<Rightarrow>
     (case Dependencies_ByName (app_Manifest update) (TeleportPackage constants) of
        Inl err \<Rightarrow> failed err
      | Inr updateTeleportPackage \<Rightarrow>
     (case SemVer updateTeleportPackage of
        Inl err \<Rightarrow> failed err
      | Inr updateTeleportVersion \<Rightarrow>
          (installedRuntimeVersion < updateRuntimeVersion,
           installedTeleportVersion < updateTeleportVersion, None)))))))))))"

section \<open>Package phases: the election phase\<close>

record Server =
  AdvertiseIP :: string
  Hostname :: string
  ClusterRole :: string

record OperationPlan =
  OperationID :: string
  ClusterName :: string
  Servers :: "Server list"

record OperationPhaseData =
  data_Server :: "Server option"

record OperationPhase =
  phase_ID :: string
  phase_Data :: "OperationPhaseData option"

record ExecutorParams =
  Plan :: OperationPlan
  Phase :: OperationPhase

text \<open>
  \<^verbatim>\<open>fsm.Logger\<close> over a \<^verbatim>\<open>logrus\<close> entry with fields. The operation key (\<^verbatim>\<open>opKey\<close>) and the
  operator are opaque here.
\<close>

record ('key, 'operator) Logger =
  Fields :: "(string \<times> string) list"
  Key :: 'key
  Operator :: 'operator
  logger_Server :: "Server option"

record ('key, 'operator) enableElectionExecutor =
  FieldLogger :: "('key, 'operator) Logger"
  ExecutorParams :: ExecutorParams

definition NewEnableElectionPhase ::
  "constants_pkg \<Rightarrow> (OperationPlan \<Rightarrow> 'key) \<Rightarrow> ExecutorParams \<Rightarrow> 'operator \<Rightarrow>
   error + ('key, 'operator) enableElectionExecutor" where
  "NewEnableElectionPhase constants opKey p operator =
     (case phase_Data (Phase p) of
        None \<Rightarrow> Inl (Err BadParameter ''server is required'' [])
      | Some d \<Rightarrow>
          (case data_Server d of
             None \<Rightarrow> Inl (Err BadParameter ''server is required'' [])
           | Some server \<Rightarrow>
               Inr \<lparr>FieldLogger =
                      \<lparr>Fields = [(FieldPhase constants, phase_ID (Phase p)),
                                 (FieldAdvertiseIP constants, AdvertiseIP server),
                                 (FieldHostname constants, Hostname server)],
                       Key = opKey (Plan p),
                       Operator = operator,
                       logger_Server = Some server\<rparr>,
                    ExecutorParams = p\<rparr>))"

text \<open>
  What a phase does to the world: progress and log messages, commands run on nodes, and
  waiting. The clock \<open>now\<close> counts abstract ticks.
\<close>

datatype effect = NextStep string | Info string | Command "string list" | Sleep nat

record World =
  now :: nat
  effects :: "effect list"

text \<open>
  The remote command runner behind \<^verbatim>\<open>utils.RunPlanetCommand\<close> is an external
  collaborator. It is given by what it answers, as a function of everything that happened
  before and of the command line: the output, the error if any, and the time the command
  took. Running a command records it among the effects and advances the clock; the
  context and the logger passed along have no part in the model.
\<close>

type_synonym Runner = "effect list \<Rightarrow> string list \<Rightarrow> (string \<times> error option) \<times> nat"

definition RunPlanetCommand ::
  "Runner \<Rightarrow> string list \<Rightarrow> World \<Rightarrow> (string \<times> error option) \<times> World" where
  "RunPlanetCommand run args w =
     (case run (effects w) args of
        (res, d) \<Rightarrow> (res, \<lparr>now = now w + d, effects = effects w @ [Command args]\<rparr>))"

definition resume_args :: "ExecutorParams \<Rightarrow> Server \<Rightarrow> string list" where
  "resume_args p server =
     [''leader'', ''resume'',
      ''--public-ip='' @ AdvertiseIP server,
      ''--election-key=/planet/cluster/'' @ ClusterName (Plan p) @ ''/election'',
      ''--etcd-cafile=/var/state/root.cert'',
      ''--etcd-certfile=/var/state/etcd.cert'',
      ''--etcd-keyfile=/var/state/etcd.key'']"

definition resume_failed_format :: string where
  "resume_failed_format = ''failed to enable election for master %v. reason: %s''"

definition resumeLeader ::
  "Runner \<Rightarrow> ('key, 'operator) enableElectionExecutor \<Rightarrow> 'ctx \<Rightarrow> Server \<Rightarrow> World \<Rightarrow>
   error option \<times> World" where
  "resumeLeader run p ctx server w =
     (case RunPlanetCommand run (resume_args (ExecutorParams p) server) w of
        ((out, Some err), w') \<Rightarrow>
          (Some (Wrap err resume_failed_format [AdvertiseIP server, out]), w')
      | ((out, None), w') \<Rightarrow> (None, w'))"

definition Rollback :: "('key, 'operator) enableElectionExecutor \<Rightarrow> 'ctx \<Rightarrow> error option" where
  "Rollback p ctx = None"

definition PreCheck :: "('key, 'operator) enableElectionExecutor \<Rightarrow> 'ctx \<Rightarrow> error option" where
  "PreCheck p ctx = None"

definition PostCheck :: "('key, 'operator) enableElectionExecutor \<Rightarrow> 'ctx \<Rightarrow> error option" where
  "PostCheck p ctx = None"










section \<open>Package helm: the chart repository\<close>

text \<open>
  The repository keeps charts and their index as packages of a \<^verbatim>\<open>pack.PackageService\<close>.
  The service is an interface; it is given here by what each call answers and how it
  changes the service's state, of any type \<open>'s\<close>. A reader (\<^verbatim>\<open>io.ReadCloser\<close>) is what
  reading it to the end gives: the bytes or an error.
\<close>

type_synonym Reader = "error + string"

record 's PackageService =
  ps_ReadPackage :: "Locator \<Rightarrow> 's \<Rightarrow> (error + Reader) \<times> 's"
  ps_CreatePackage :: "Locator \<Rightarrow> Reader \<Rightarrow> 's \<Rightarrow> error option \<times> 's"
  ps_UpsertPackage :: "Locator \<Rightarrow> string \<Rightarrow> 's \<Rightarrow> error option \<times> 's"
  ps_DeletePackage :: "Locator \<Rightarrow> 's \<Rightarrow> error option \<times> 's"
  ps_PortalURL :: string

record ChartMetadata =
  md_Name :: string
  md_Version :: string

record Chart =
  Metadata :: ChartMetadata

record ChartVersion =
  cv_Metadata :: ChartMetadata
  cv_URLs :: "string list"
  cv_Digest :: string

record IndexFile =
  Entries :: "string \<rightharpoonup> ChartVersion list"

text \<open>
  Functions of other packages and libraries that the repository calls:
  \<^verbatim>\<open>loc.NewLocator\<close>, \<^verbatim>\<open>chartutil.LoadArchive\<close>, \<^verbatim>\<open>provenance.Digest\<close>, the methods of
  \<^verbatim>\<open>repo.IndexFile\<close>, \<^verbatim>\<open>yaml.Marshal\<close>, \<^verbatim>\<open>yaml.Unmarshal\<close> and \<^verbatim>\<open>filepath.Join\<close>. The target
  of \<^verbatim>\<open>yaml.Unmarshal\<close> and the argument of \<^verbatim>\<open>yaml.Marshal\<close> are pointers: \<open>None\<close> is nil.
  \<^verbatim>\<open>yaml.Unmarshal\<close> receives the pointer by value, so it can only write to what the
  pointer refers to; its result here is the error.
\<close>

record helm_lib =
  NewLocator :: "string \<Rightarrow> string \<Rightarrow> string \<Rightarrow> error + Locator"
  LoadArchive :: "Reader \<Rightarrow> error + Chart"
  Digest :: "Reader \<Rightarrow> error + string"
  NewIndexFile :: IndexFile
  Has :: "IndexFile \<Rightarrow> string \<Rightarrow> string \<Rightarrow> bool"
  Add :: "IndexFile \<Rightarrow> ChartMetadata \<Rightarrow> string \<Rightarrow> string \<Rightarrow> string \<Rightarrow> IndexFile"
  SortEntries :: "IndexFile \<Rightarrow> IndexFile"
  yaml_Marshal :: "IndexFile \<Rightarrow> error + string"
  yaml_Unmarshal :: "string \<Rightarrow> IndexFile option \<Rightarrow> error option"
  filepath_Join :: "string \<Rightarrow> string \<Rightarrow> string"

text \<open>
  What a call does, in order: taking and releasing the repository's mutex, and the I/O
  calls. Every event other than \<open>Lock\<close> and \<open>Unlock\<close> is an I/O call.
\<close>

datatype repo_event =
    Lock
  | Unlock
  | EvReadPackage Locator
  | EvReadAll
  | EvClose
  | EvLoadArchive
  | EvDigest
  | EvCreatePackage Locator
  | EvUpsertPackage Locator string
  | EvDeletePackage Locator

record 's repo_world =
  store :: 's
  trace :: "repo_event list"

definition log :: "repo_event \<Rightarrow> 's repo_world \<Rightarrow> 's repo_world" where
  "log ev w = w\<lparr>trace := trace w @ [ev]\<rparr>"

definition ReadPackage ::
  "'s PackageService \<Rightarrow> Locator \<Rightarrow> 's repo_world \<Rightarrow> (error + Reader) \<times> 's repo_world" where
  "ReadPackage ps locator w =
     (case ps_ReadPackage ps locator (store w) of
        (res, s') \<Rightarrow> (res, \<lparr>store = s', trace = trace w @ [EvReadPackage locator]\<rparr>))"

definition CreatePackage ::
  "'s PackageService \<Rightarrow> Locator \<Rightarrow> Reader \<Rightarrow> 's repo_world \<Rightarrow> error option \<times> 's repo_world" where
  "CreatePackage ps locator data w =
     (case ps_CreatePackage ps locator data (store w) of
        (res, s') \<Rightarrow> (res, \<lparr>store = s', trace = trace w @ [EvCreatePackage locator]\<rparr>))"

definition UpsertPackage ::
  "'s PackageService \<Rightarrow> Locator \<Rightarrow> string \<Rightarrow> 's repo_world \<Rightarrow> error option \<times> 's repo_world" where
  "UpsertPackage ps locator data w =
     (case ps_UpsertPackage ps locator data (store w) of
        (res, s') \<Rightarrow> (res, \<lparr>store = s', trace = trace w @ [EvUpsertPackage locator data]\<rparr>))"

definition DeletePackage ::
  "'s PackageService \<Rightarrow> Locator \<Rightarrow> 's repo_world \<Rightarrow> error option \<times> 's repo_world" where
  "DeletePackage ps locator w =
     (case ps_DeletePackage ps locator (store w) of
        (res, s') \<Rightarrow> (res, \<lparr>store = s', trace = trace w @ [EvDeletePackage locator]\<rparr>))"

definition indexLoc :: Locator where
  "indexLoc = \<lparr>loc_Repository = ''charts'', loc_Name = ''index'', loc_Version = ''0.0.1''\<rparr>"

text \<open>
  A function that can panic (a nil pointer dereference) returns \<open>Return r\<close> or \<open>Panic\<close>;
  deferred calls run in both cases.
\<close>

datatype 'a go = Return 'a | Panic

text \<open>\<^verbatim>\<open>clusterRepository.digest\<close>; the reader is closed on every path after the read.\<close>

definition digest ::
  "helm_lib \<Rightarrow> 's PackageService \<Rightarrow> Locator \<Rightarrow> 's repo_world \<Rightarrow> (error + string) \<times> 's repo_world" where
  "digest lib ps locator w =
     (case ReadPackage ps locator w of
        (Inl err, w1) \<Rightarrow> (Inl (Wrap0 err), w1)
      | (Inr reader, w1) \<Rightarrow>
          (case Digest lib reader of
             Inl err \<Rightarrow> (Inl (Wrap0 err), log EvClose (log EvDigest w1))
           | Inr d \<Rightarrow> (Inr d, log EvClose (log EvDigest w1))))"

text \<open>
  \<^verbatim>\<open>clusterRepository.getIndexFile\<close>. The variable \<^verbatim>\<open>indexFile\<close> is declared without a
  value, so it is nil when it is passed to \<^verbatim>\<open>yaml.Unmarshal\<close> and still nil when it is
  returned.
\<close>

definition getIndexFile ::
  "helm_lib \<Rightarrow> 's PackageService \<Rightarrow> 's repo_world \<Rightarrow>
   (error + IndexFile option) \<times> 's repo_world" where
  "getIndexFile lib ps w =
     (case ReadPackage ps indexLoc w of
        (Inl err, w1) \<Rightarrow> (Inl (Wrap0 err), w1)
      | (Inr reader, w1) \<Rightarrow>
          (case reader of
             Inl err \<Rightarrow> (Inl (Wrap0 err), log EvClose (log EvReadAll w1))
           | Inr data \<Rightarrow>
               (let indexFile = None
                in case yaml_Unmarshal lib data indexFile of
                     Some err \<Rightarrow> (Inl (Wrap0 err), log EvClose (log EvReadAll w1))
                   | None \<Rightarrow> (Inr indexFile, log EvClose (log EvReadAll w1)))))"

text \<open>
  The inner loop of \<^verbatim>\<open>removeFromIndex\<close>: the list without the first entry of the given
  version. The outer loop visits every key of the map and acts on the one equal to
  \<^verbatim>\<open>chartName\<close>.
\<close>

fun remove_version :: "string \<Rightarrow> ChartVersion list \<Rightarrow> ChartVersion list" where
  "remove_version chartVersion [] = []"
| "remove_version chartVersion (version # versions) =
     (if md_Version (cv_Metadata version) = chartVersion then versions
      else version # remove_version chartVersion versions)"

definition remove_entry :: "string \<Rightarrow> string \<Rightarrow> IndexFile \<Rightarrow> IndexFile" where
  "remove_entry chartName chartVersion indexFile =
     (case Entries indexFile chartName of
        None \<Rightarrow> indexFile
      | Some versions \<Rightarrow>
          indexFile\<lparr>Entries := (Entries indexFile)
                       (chartName \<mapsto> remove_version chartVersion versions)\<rparr>)"

text \<open>
  \<^verbatim>\<open>clusterRepository.removeFromIndex\<close>: \<^verbatim>\<open>r.Lock()\<close> first, \<^verbatim>\<open>defer r.Unlock()\<close> last on
  every path.
\<close>

definition removeFromIndex_locked ::
  "helm_lib \<Rightarrow> 's PackageService \<Rightarrow> string \<Rightarrow> string \<Rightarrow> 's repo_world \<Rightarrow>
   error option go \<times> 's repo_world" where
  "removeFromIndex_locked lib ps chartName chartVersion w =
     (case getIndexFile lib ps w of
        (Inl err, w1) \<Rightarrow> (Return (Some (Wrap0 err)), w1)
      | (Inr None, w1) \<Rightarrow> (Panic, w1)
      | (Inr (Some indexFile), w1) \<Rightarrow>
          (case yaml_Marshal lib (remove_entry chartName chartVersion indexFile) of
             Inl err \<Rightarrow> (Return (Some (Wrap0 err)), w1)
           | Inr data \<Rightarrow>
               (case UpsertPackage ps indexLoc data w1 of
                  (Some err, w2) \<Rightarrow> (Return (Some (Wrap0 err)), w2)
                | (None, w2) \<Rightarrow> (Return None, w2))))"

definition removeFromIndex ::
  "helm_lib \<Rightarrow> 's PackageService \<Rightarrow> string \<Rightarrow> string \<Rightarrow> 's repo_world \<Rightarrow>
   error option go \<times> 's repo_world" where
  "removeFromIndex lib ps chartName chartVersion w =
     (case removeFromIndex_locked lib ps chartName chartVersion (log Lock w) of
        (res, w') \<Rightarrow> (res, log Unlock w'))"

text \<open>
  \<^verbatim>\<open>clusterRepository.addToIndex\<close>. The first function is the part from the call of
  \<^verbatim>\<open>getIndexFile\<close> on, the second the part between \<^verbatim>\<open>r.Lock()\<close> and the deferred
  \<^verbatim>\<open>r.Unlock()\<close>. In the first, the inner case is the two tests on the error of
  \<^verbatim>\<open>getIndexFile\<close>: an error other than NotFound is returned wrapped, NotFound replaces
  the index by a new one, and with no error the pointer returned is used as it is; a nil
  pointer then panics at \<^verbatim>\<open>indexFile.Has\<close>. The reader of the chart's package is closed
  (deferred) before the mutex is released.
\<close>

definition chart_exists_format :: string where
  "chart_exists_format = ''chart %v:%v already exists''"

definition addToIndex_update ::
  "helm_lib \<Rightarrow> 's PackageService \<Rightarrow> Chart \<Rightarrow> string \<Rightarrow> 's repo_world \<Rightarrow>
   error option go \<times> 's repo_world" where
  "addToIndex_update lib ps chart dig w =
     (case getIndexFile lib ps w of
        (res, w1) \<Rightarrow>
          (case (case res of
                   Inl err \<Rightarrow> if \<not> IsNotFound err then Inl (Wrap0 err)
                              else Inr (Some (NewIndexFile lib))
                 | Inr indexFile \<Rightarrow> Inr indexFile) of
             Inl err \<Rightarrow> (Return (Some err), w1)
           | Inr None \<Rightarrow> (Panic, w1)
           | Inr (Some indexFile) \<Rightarrow>
               if Has lib indexFile (md_Name (Metadata chart)) (md_Version (Metadata chart))
               then (Return (Some (Err AlreadyExists chart_exists_format
                        [md_Name (Metadata chart), md_Version (Metadata chart)])), w1)
               else
                 (case yaml_Marshal lib
                         (SortEntries lib
                            (Add lib indexFile (Metadata chart)
                               (md_Name (Metadata chart) @ ''-'' @
                                md_Version (Metadata chart) @ ''.tgz'')
                               (filepath_Join lib (ps_PortalURL ps) ''charts'') dig)) of
                    Inl err \<Rightarrow> (Return (Some (Wrap0 err)), w1)
                  | Inr data \<Rightarrow>
                      (case UpsertPackage ps indexLoc data w1 of
                         (Some err, w2) \<Rightarrow> (Return (Some (Wrap0 err)), w2)
                       | (None, w2) \<Rightarrow> (Return None, w2)))))"

definition addToIndex_locked ::
  "helm_lib \<Rightarrow> 's PackageService \<Rightarrow> Locator \<Rightarrow> 's repo_world \<Rightarrow>
   error option go \<times> 's repo_world" where
  "addToIndex_locked lib ps locator w =
     (case ReadPackage ps locator w of
        (Inl err, w1) \<Rightarrow> (Return (Some (Wrap0 err)), w1)
      | (Inr reader, w1) \<Rightarrow>
          (case (case LoadArchive lib reader of
                   Inl err \<Rightarrow> (Return (Some (Wrap0 err)), log EvLoadArchive w1)
                 | Inr chart \<Rightarrow>
                     (case digest lib ps locator (log EvLoadArchive w1) of
                        (Inl err, w2) \<Rightarrow> (Return (Some (Wrap0 err)), w2)
                      | (Inr dig, w2) \<Rightarrow> addToIndex_update lib ps chart dig w2)) of
             (res, w3) \<Rightarrow> (res, log EvClose w3)))"

definition addToIndex ::
  "helm_lib \<Rightarrow> 's PackageService \<Rightarrow> Locator \<Rightarrow> 's repo_world \<Rightarrow>
   error option go \<times> 's repo_world" where
  "addToIndex lib ps locator w =
     (case addToIndex_locked lib ps locator (log Lock w) of
        (res, w') \<Rightarrow> (res, log Unlock w'))"

text \<open>\<^verbatim>\<open>PutChart\<close> and \<^verbatim>\<open>DeleteChart\<close>; a panic of the callee passes through.\<close>

definition PutChart ::
  "helm_lib \<Rightarrow> 's PackageService \<Rightarrow> string \<Rightarrow> string \<Rightarrow> Reader \<Rightarrow> 's repo_world \<Rightarrow>
   error option go \<times> 's repo_world" where
  "PutChart lib ps name version data w =
     (case NewLocator lib ''charts'' name version of
        Inl err \<Rightarrow> (Return (Some (Wrap0 err)), w)
      | Inr locator \<Rightarrow>
          (case CreatePackage ps locator data w of
             (Some err, w1) \<Rightarrow> (Return (Some (Wrap0 err)), w1)
           | (None, w1) \<Rightarrow>
               (case addToIndex lib ps locator w1 of
                  (Return (Some err), w2) \<Rightarrow> (Return (Some (Wrap0 err)), w2)
                | (Return None, w2) \<Rightarrow> (Return None, w2)
                | (Panic, w2) \<Rightarrow> (Panic, w2))))"

definition DeleteChart ::
  "helm_lib \<Rightarrow> 's PackageService \<Rightarrow> string \<Rightarrow> string \<Rightarrow> 's repo_world \<Rightarrow>
   error option go \<times> 's repo_world" where
  "DeleteChart lib ps chartName chartVersion w =
     (case NewLocator lib ''charts'' chartName chartVersion of
        Inl err \<Rightarrow> (Return (Some (Wrap0 err)), w)
      | Inr locator \<Rightarrow>
          (case removeFromIndex lib ps chartName chartVersion w of
             (Return (Some err), w1) \<Rightarrow> (Return (Some (Wrap0 err)), w1)
           | (Panic, w1) \<Rightarrow> (Panic, w1)
           | (Return None, w1) \<Rightarrow>
               (case DeletePackage ps locator w1 of
                  (Some err, w2) \<Rightarrow> (Return (Some (Wrap0 err)), w2)
                | (None, w2) \<Rightarrow> (Return None, w2))))"

text \<open>
  The discipline "no I/O call while the mutex is held", as a check of a trace: the flag
  says whether the mutex is held.
\<close>

fun io_outside_lock :: "bool \<Rightarrow> repo_event list \<Rightarrow> bool" where
  "io_outside_lock held [] = True"
| "io_outside_lock held (Lock # evs) = io_outside_lock True evs"
| "io_outside_lock held (Unlock # evs) = io_outside_lock False evs"
| "io_outside_lock held (ev # evs) = (\<not> held \<and> io_outside_lock held evs)"

section \<open>Predicates used in the proofs\<close>





text \<open>The masters among the servers, in the order of the plan.\<close>

abbreviation masters :: "schema_pkg \<Rightarrow> Server list \<Rightarrow> Server list" where
  "masters schema servers \<equiv> filter (\<lambda>s. ClusterRole s = ServiceRoleMaster schema) servers"


text \<open>
  A world reached from another by events that neither take nor release the mutex, and
  the same with the first of these events given.
\<close>

definition grows :: "'s repo_world \<Rightarrow> 's repo_world \<Rightarrow> bool" where
  "grows w w' \<longleftrightarrow> (\<exists>evs. trace w' = trace w @ evs \<and> Lock \<notin> set evs \<and> Unlock \<notin> set evs)"

definition starts :: "'s repo_world \<Rightarrow> repo_event \<Rightarrow> 's repo_world \<Rightarrow> bool" where
  "starts w ev w' \<longleftrightarrow>
     (\<exists>evs. trace w' = trace w @ ev # evs \<and> Lock \<notin> set evs \<and> Unlock \<notin> set evs)"

section \<open>Example inputs\<close>

text \<open>An update operation of the cluster \<open>example.com\<close> with one master and one node.\<close>

definition ex_op :: Operation where
  "ex_op = \<lparr>op_ID = ''op-1'', op_SiteDomain = ''example.com'', op_Type = ''operation_update''\<rparr>"

text \<open>
  A small plan type for the examples: phases with their states, a changelog of state
  changes, and a resolver under which the last change of a phase wins.
\<close>

definition ex_resolve ::
  "(string \<times> string) list \<Rightarrow> (string \<times> string) list \<Rightarrow> (string \<times> string) list" where
  "ex_resolve plan changelog =
     map (\<lambda>(phase, state).
            (phase, case map_of (rev changelog) phase of None \<Rightarrow> state | Some state' \<Rightarrow> state'))
         plan"

definition ex_backend :: "((string \<times> string) list, string \<times> string) Backend" where
  "ex_backend =
     \<lparr>b_GetOperationPlan = (\<lambda>domain opID.
          if domain = ''example.com'' \<and> opID = ''op-1''
          then (Some [(''/masters/node-1'', ''unstarted''), (''/masters/node-2'', ''unstarted'')],
                None)
          else (None, Some (Err NotFound ''no operation plan'' []))),
      b_GetOperationPlanChangelog = (\<lambda>domain opID.
          ([(''/masters/node-1'', ''in_progress''), (''/masters/node-1'', ''completed'')], None))\<rparr>"

definition ex_backend_uninit :: "((string \<times> string) list, string \<times> string) Backend" where
  "ex_backend_uninit =
     ex_backend\<lparr>b_GetOperationPlan :=
                  (\<lambda>domain opID. (None, Some (Err NotFound ''no operation plan'' [])))\<rparr>"

definition ex_backend_down :: "((string \<times> string) list, string \<times> string) Backend" where
  "ex_backend_down =
     ex_backend\<lparr>b_GetOperationPlan :=
                  (\<lambda>domain opID. (None, Some (Err Other ''connection refused'' [])))\<rparr>"

definition ex_getLast ::
  "((string \<times> string) list, string \<times> string) Backend \<Rightarrow> error + Operation" where
  "ex_getLast b = Inr ex_op"

text \<open>The cluster of the examples, the election phase on its master, and the constants.\<close>

definition ex_master :: Server where
  "ex_master = \<lparr>AdvertiseIP = ''10.0.0.1'', Hostname = ''node-1'', ClusterRole = ''master''\<rparr>"

definition ex_node :: Server where
  "ex_node = \<lparr>AdvertiseIP = ''10.0.0.2'', Hostname = ''node-2'', ClusterRole = ''node''\<rparr>"

definition ex_plan :: OperationPlan where
  "ex_plan = \<lparr>OperationID = ''op-1'', ClusterName = ''example.com'',
              Servers = [ex_node, ex_master]\<rparr>"

definition ex_params :: ExecutorParams where
  "ex_params =
     \<lparr>Plan = ex_plan,
      Phase = \<lparr>phase_ID = ''/election'',
               phase_Data = Some \<lparr>data_Server = Some ex_master\<rparr>\<rparr>\<rparr>"

definition ex_params_no_server :: ExecutorParams where
  "ex_params_no_server =
     \<lparr>Plan = ex_plan,
      Phase = \<lparr>phase_ID = ''/election'', phase_Data = Some \<lparr>data_Server = None\<rparr>\<rparr>\<rparr>"

definition ex_constants :: constants_pkg where
  "ex_constants =
     \<lparr>TeleportPackage = ''teleport'', FieldPhase = ''phase'',
      FieldAdvertiseIP = ''advertise-ip'', FieldHostname = ''hostname''\<rparr>"

definition ex_schema :: schema_pkg where
  "ex_schema = \<lparr>ServiceRoleMaster = ''master'', ServiceRoleNode = ''node''\<rparr>"

definition ex_loc :: loc_pkg where
  "ex_loc =
     \<lparr>LegacyPlanetMaster =
        \<lparr>loc_Repository = ''gravitational.io'', loc_Name = ''planet-master'',
         loc_Version = ''0.0.0''\<rparr>,
      LegacyPlanetNode =
        \<lparr>loc_Repository = ''gravitational.io'', loc_Name = ''planet-node'',
         loc_Version = ''0.0.0''\<rparr>\<rparr>"

definition ex_opKey :: "OperationPlan \<Rightarrow> string \<times> string" where
  "ex_opKey plan = (ClusterName plan, OperationID plan)"

definition ex_executor :: "(string \<times> string, unit) enableElectionExecutor" where
  "ex_executor =
     \<lparr>FieldLogger =
        \<lparr>Fields = [(''phase'', ''/election''), (''advertise-ip'', ''10.0.0.1''),
                   (''hostname'', ''node-1'')],
         Key = (''example.com'', ''op-1''),
         Operator = (),
         logger_Server = Some ex_master\<rparr>,
      ExecutorParams = ex_params\<rparr>"

definition ex_world :: World where
  "ex_world = \<lparr>now = 0, effects = []\<rparr>"

text \<open>
  Runners: one whose command always fails after three ticks, and one whose command fails
  the first time it is run and succeeds from then on.
\<close>

definition ex_run_down :: Runner where
  "ex_run_down history args =
     ((''dial tcp 10.0.0.1:7575: connection refused'', Some (Err Other ''exit status 255'' [])), 3)"




text \<open>
  Manifests: versions are read off the version string by a small table; the installed
  application runs planet 5.0.0, the update brings planet 5.2.0, and both have the same
  teleport. The legacy manifest has no runtime package for its profile and lists the
  legacy master package among its dependencies.
\<close>

definition ex_SemVer :: "Locator \<Rightarrow> error + nat \<times> nat \<times> nat" where
  "ex_SemVer locator =
     (case map_of [(''5.0.0'', (5, 0, 0)), (''5.2.0'', (5, 2, 0)), (''3.0.1'', (3, 0, 1))]
             (loc_Version locator) of
        None \<Rightarrow> Inl (Err BadParameter ''unsupported version format: %v'' [loc_Version locator])
      | Some v \<Rightarrow> Inr v)"

definition ex_manifest :: "string \<Rightarrow> Manifest" where
  "ex_manifest planetVersion =
     \<lparr>NodeProfiles_ByName = (\<lambda>name.
          if name = ''worker'' then Inr \<lparr>profile_Name = ''worker''\<rparr>
          else Inl (Err NotFound ''node profile %v not found'' [name])),
      RuntimePackage = (\<lambda>profile.
          Inr \<lparr>loc_Repository = ''gravitational.io'', loc_Name = ''planet'',
               loc_Version = planetVersion\<rparr>),
      Dependencies_ByName = (\<lambda>name.
          if name = ''teleport''
          then Inr \<lparr>loc_Repository = ''gravitational.io'', loc_Name = ''teleport'',
                    loc_Version = ''3.0.1''\<rparr>
          else Inl (Err NotFound ''dependency %v not found'' [name]))\<rparr>"

definition ex_legacy_manifest :: Manifest where
  "ex_legacy_manifest =
     \<lparr>NodeProfiles_ByName = (\<lambda>name. Inr \<lparr>profile_Name = name\<rparr>),
      RuntimePackage = (\<lambda>profile.
          Inl (Err NotFound ''runtime package not found'' [])),
      Dependencies_ByName = (\<lambda>name.
          if name = ''planet-master''
          then Inr \<lparr>loc_Repository = ''gravitational.io'', loc_Name = ''planet-master'',
                    loc_Version = ''5.0.0''\<rparr>
          else Inl (Err NotFound ''dependency %v not found'' [name]))\<rparr>"

text \<open>
  A chart repository for the examples. The package service is a store of packages by
  locator; reading a missing package and deleting one give NotFound, creating an existing
  one gives AlreadyExists. The library functions are small stand-ins;
  \<open>yaml_Unmarshal\<close> rejects a nil target, as \<^verbatim>\<open>encoding/json\<close> documents for
  \<^verbatim>\<open>Unmarshal\<close>.
\<close>

definition ex_ps :: "(Locator \<rightharpoonup> string) PackageService" where
  "ex_ps =
     \<lparr>ps_ReadPackage = (\<lambda>locator s.
          (case s locator of
             None \<Rightarrow> Inl (Err NotFound ''package %v not found'' [loc_Name locator])
           | Some data \<Rightarrow> Inr (Inr data), s)),
      ps_CreatePackage = (\<lambda>locator reader s.
          case s locator of
            Some old \<Rightarrow> (Some (Err AlreadyExists ''package %v already exists''
                                 [loc_Name locator]), s)
          | None \<Rightarrow> (case reader of
                       Inl err \<Rightarrow> (Some err, s)
                     | Inr data \<Rightarrow> (None, s(locator \<mapsto> data)))),
      ps_UpsertPackage = (\<lambda>locator data s. (None, s(locator \<mapsto> data))),
      ps_DeletePackage = (\<lambda>locator s.
          case s locator of
            None \<Rightarrow> (Some (Err NotFound ''package %v not found'' [loc_Name locator]), s)
          | Some old \<Rightarrow> (None, s(locator := None))),
      ps_PortalURL = ''https://gravity.example.com''\<rparr>"

definition ex_lib :: helm_lib where
  "ex_lib =
     \<lparr>NewLocator = (\<lambda>repository name version.
          if name = [] \<or> version = []
          then Inl (Err BadParameter ''invalid package name or version'' [])
          else Inr \<lparr>loc_Repository = repository, loc_Name = name, loc_Version = version\<rparr>),
      LoadArchive = (\<lambda>reader.
          case reader of
            Inl err \<Rightarrow> Inl err
          | Inr data \<Rightarrow> Inr \<lparr>Metadata = \<lparr>md_Name = ''nginx'', md_Version = ''1.0.0''\<rparr>\<rparr>),
      Digest = (\<lambda>reader.
          case reader of Inl err \<Rightarrow> Inl err | Inr data \<Rightarrow> Inr (''sha256:'' @ data)),
      NewIndexFile = \<lparr>Entries = Map.empty\<rparr>,
      Has = (\<lambda>indexFile name version.
          case Entries indexFile name of
            None \<Rightarrow> False
          | Some versions \<Rightarrow> version \<in> set (map (\<lambda>v. md_Version (cv_Metadata v)) versions)),
      Add = (\<lambda>indexFile md filename baseURL dig.
          indexFile\<lparr>Entries := (Entries indexFile)
             (md_Name md \<mapsto>
                (case Entries indexFile (md_Name md) of None \<Rightarrow> [] | Some versions \<Rightarrow> versions)
                @ [\<lparr>cv_Metadata = md, cv_URLs = [baseURL @ ''/'' @ filename],
                    cv_Digest = dig\<rparr>])\<rparr>),
      SortEntries = (\<lambda>indexFile. indexFile),
      yaml_Marshal = (\<lambda>indexFile. Inr ''apiVersion: v1''),
      yaml_Unmarshal = (\<lambda>data target.
          case target of
            None \<Rightarrow> Some (Err Other ''json: Unmarshal(nil *repo.IndexFile)'' [])
          | Some indexFile \<Rightarrow> None),
      filepath_Join = (\<lambda>dir name. dir @ ''/'' @ name)\<rparr>"

definition ex_chart :: Locator where
  "ex_chart = \<lparr>loc_Repository = ''charts'', loc_Name = ''nginx'', loc_Version = ''1.0.0''\<rparr>"

text \<open>
  Three states of the store: the chart alone, the index alone, and both the chart and
  the index.
\<close>

definition ex_store_chart :: "Locator \<rightharpoonup> string" where
  "ex_store_chart = [ex_chart \<mapsto> ''nginx-1.0.0.tgz'']"

definition ex_store_index :: "Locator \<rightharpoonup> string" where
  "ex_store_index = [indexLoc \<mapsto> ''apiVersion: v1'']"

definition ex_store_both :: "Locator \<rightharpoonup> string" where
  "ex_store_both = [ex_chart \<mapsto> ''nginx-1.0.0.tgz'', indexLoc \<mapsto> ''apiVersion: v1'']"

section \<open>Facts about errors\<close>

lemma IsNotFound_Unwrap: "IsNotFound e = IsNotFound (Unwrap e)"
  by (induction e) simp_all

lemma init_flag_in_format: "sublist ''--init'' plan_not_found_format"
proof -
  have "plan_not_found_format =
      ''%q does not have a plan, use 'gravity plan '' @ ''--init'' @
      (CHR 0x27 # '' to initialize it'')"
    by (simp add: plan_not_found_format_def)
  then show ?thesis
    unfolding sublist_def by blast
qed

section \<open>The operation plan lookup\<close>

text \<open>
  C1. When the last operation exists and the backend holds no plan for it (the plan
  lookup returns a nil plan, with no error or with a NotFound error),
  \<open>GetOperationPlan\<close> returns a NotFound error whose message tells the operator to
  initialise the plan with \<^verbatim>\<open>--init\<close>. Any other error of the plan lookup is handed to
  the caller wrapped, and stays distinguishable: it is not a NotFound error.
\<close>

theorem GetOperationPlan_uninitialized:
  assumes "getLast b = Inr op"
  shows "((b_GetOperationPlan b (op_SiteDomain op) (op_ID op) = (None, None) \<or>
           (\<exists>e. b_GetOperationPlan b (op_SiteDomain op) (op_ID op) = (None, Some e) \<and>
                IsNotFound e))
          \<longrightarrow> GetOperationPlan getLast resolve b =
                Inl (Err NotFound plan_not_found_format [op_Type op]))
       \<and> IsNotFound (Err NotFound plan_not_found_format [op_Type op])
       \<and> sublist ''--init'' plan_not_found_format
       \<and> (\<forall>plan e. b_GetOperationPlan b (op_SiteDomain op) (op_ID op) = (plan, Some e) \<and>
                   \<not> IsNotFound e
            \<longrightarrow> GetOperationPlan getLast resolve b = Inl (Wrap0 e) \<and>
                \<not> IsNotFound (Wrap0 e) \<and> Unwrap (Wrap0 e) = Unwrap e)"
  using assms by (auto simp: GetOperationPlan_def init_flag_in_format)

theorem GetOperationPlan_uninitialized_witness:
  "ex_getLast ex_backend_uninit = Inr ex_op
   \<and> (\<exists>e. b_GetOperationPlan ex_backend_uninit (op_SiteDomain ex_op) (op_ID ex_op) =
            (None, Some e) \<and> IsNotFound e)
   \<and> GetOperationPlan ex_getLast ex_resolve ex_backend_uninit =
       Inl (Err NotFound plan_not_found_format [''operation_update''])
   \<and> b_GetOperationPlan ex_backend_down (op_SiteDomain ex_op) (op_ID ex_op) =
       (None, Some (Err Other ''connection refused'' []))
   \<and> \<not> IsNotFound (Err Other ''connection refused'' [])
   \<and> GetOperationPlan ex_getLast ex_resolve ex_backend_down =
       Inl (Wrap0 (Err Other ''connection refused'' []))"
proof -
  have last1: "ex_getLast ex_backend_uninit = Inr ex_op"
    and last2: "ex_getLast ex_backend_down = Inr ex_op"
    by (simp_all add: ex_getLast_def)
  have none: "\<exists>e. b_GetOperationPlan ex_backend_uninit (op_SiteDomain ex_op) (op_ID ex_op) =
            (None, Some e) \<and> IsNotFound e"
    by (simp add: ex_backend_uninit_def)
  have down: "b_GetOperationPlan ex_backend_down (op_SiteDomain ex_op) (op_ID ex_op) =
       (None, Some (Err Other ''connection refused'' []))"
    by (simp add: ex_backend_down_def)
  have other: "\<not> IsNotFound (Err Other ''connection refused'' [])"
    by simp
  from GetOperationPlan_uninitialized
      [where getLast = ex_getLast and b = ex_backend_uninit and op = ex_op and resolve = ex_resolve, OF last1] none
  have "GetOperationPlan ex_getLast ex_resolve ex_backend_uninit =
       Inl (Err NotFound plan_not_found_format [op_Type ex_op])"
    by blast
  then have r1: "GetOperationPlan ex_getLast ex_resolve ex_backend_uninit =
       Inl (Err NotFound plan_not_found_format [''operation_update''])"
    by (simp add: ex_op_def)
  from GetOperationPlan_uninitialized
      [where getLast = ex_getLast and b = ex_backend_down and op = ex_op and resolve = ex_resolve, OF last2] down other
  have r2: "GetOperationPlan ex_getLast ex_resolve ex_backend_down =
       Inl (Wrap0 (Err Other ''connection refused'' []))"
    by blast
  from last1 none r1 down other r2 show ?thesis
    by blast
qed

text \<open>
  C2. \<open>GetOperationPlan\<close> first looks up the last operation and hands its error on,
  NotFound included. With the operation it fetches the plan and the changelog by the
  operation's domain and ID, hands on an error of the changelog fetch, and otherwise
  returns the plan resolved against the changelog. Every plan it returns is such a
  resolved plan.
\<close>

theorem GetOperationPlan_resolved:
  "(\<forall>e. getLast b = Inl e \<longrightarrow>
        GetOperationPlan getLast resolve b = Inl (Wrap0 e) \<and>
        IsNotFound (Wrap0 e) = IsNotFound e)
   \<and> (\<forall>op base err changelog.
         getLast b = Inr op \<and>
         b_GetOperationPlan b (op_SiteDomain op) (op_ID op) = (Some base, err) \<and>
         (\<forall>e. err = Some e \<longrightarrow> IsNotFound e) \<longrightarrow>
         (\<forall>e. b_GetOperationPlanChangelog b (op_SiteDomain op) (op_ID op) = (changelog, Some e)
              \<longrightarrow> GetOperationPlan getLast resolve b = Inl (Wrap0 e)) \<and>
         (b_GetOperationPlanChangelog b (op_SiteDomain op) (op_ID op) = (changelog, None)
              \<longrightarrow> GetOperationPlan getLast resolve b = Inr (resolve base changelog)))
   \<and> (\<forall>plan. GetOperationPlan getLast resolve b = Inr plan \<longrightarrow>
         (\<exists>op base err changelog.
            getLast b = Inr op \<and>
            b_GetOperationPlan b (op_SiteDomain op) (op_ID op) = (Some base, err) \<and>
            b_GetOperationPlanChangelog b (op_SiteDomain op) (op_ID op) = (changelog, None) \<and>
            plan = resolve base changelog))"
  by (auto simp: GetOperationPlan_def split: sum.splits option.splits prod.splits if_splits)

theorem GetOperationPlan_resolved_witness:
  "ex_getLast ex_backend = Inr ex_op
   \<and> b_GetOperationPlan ex_backend (op_SiteDomain ex_op) (op_ID ex_op) =
       (Some [(''/masters/node-1'', ''unstarted''), (''/masters/node-2'', ''unstarted'')], None)
   \<and> b_GetOperationPlanChangelog ex_backend (op_SiteDomain ex_op) (op_ID ex_op) =
       ([(''/masters/node-1'', ''in_progress''), (''/masters/node-1'', ''completed'')], None)
   \<and> GetOperationPlan ex_getLast ex_resolve ex_backend =
       Inr [(''/masters/node-1'', ''completed''), (''/masters/node-2'', ''unstarted'')]"
proof -
  let ?base = "[(''/masters/node-1'', ''unstarted''), (''/masters/node-2'', ''unstarted'')]"
  let ?log = "[(''/masters/node-1'', ''in_progress''), (''/masters/node-1'', ''completed'')]"
  have last1: "ex_getLast ex_backend = Inr ex_op"
    by (simp add: ex_getLast_def)
  have plan: "b_GetOperationPlan ex_backend (op_SiteDomain ex_op) (op_ID ex_op) =
       (Some ?base, None)"
    by (simp add: ex_backend_def ex_op_def)
  have chg: "b_GetOperationPlanChangelog ex_backend (op_SiteDomain ex_op) (op_ID ex_op) =
       (?log, None)"
    by (simp add: ex_backend_def)
  have noerr: "\<forall>e. (None :: error option) = Some e \<longrightarrow> IsNotFound e"
    by simp
  from GetOperationPlan_resolved
      [where getLast = ex_getLast and b = ex_backend and resolve = ex_resolve] last1 plan chg noerr
  have "GetOperationPlan ex_getLast ex_resolve ex_backend = Inr (ex_resolve ?base ?log)"
    by blast
  moreover have "ex_resolve ?base ?log =
      [(''/masters/node-1'', ''completed''), (''/masters/node-2'', ''unstarted'')]"
    by (simp add: ex_resolve_def)
  ultimately have "GetOperationPlan ex_getLast ex_resolve ex_backend =
       Inr [(''/masters/node-1'', ''completed''), (''/masters/node-2'', ''unstarted'')]"
    by simp
  with last1 plan chg show ?thesis
    by blast
qed

section \<open>The election phase\<close>

text \<open>
  C4. \<open>NewEnableElectionPhase\<close> returns the BadParameter error "server is required"
  exactly when the phase has no data or its data has no server. With a server it returns
  an executor (holding the parameters and the server) and no error. It returns no other
  error, and nothing in it is retried.
\<close>

theorem NewEnableElectionPhase_server_required:
  "(NewEnableElectionPhase constants opKey p operator =
      Inl (Err BadParameter ''server is required'' [])
    \<longleftrightarrow> (phase_Data (Phase p) = None \<or>
         (\<exists>d. phase_Data (Phase p) = Some d \<and> data_Server d = None)))
   \<and> (\<forall>d server. phase_Data (Phase p) = Some d \<and> data_Server d = Some server \<longrightarrow>
         (\<exists>executor. NewEnableElectionPhase constants opKey p operator = Inr executor \<and>
            ExecutorParams executor = p \<and>
            logger_Server (FieldLogger executor) = Some server))
   \<and> (\<forall>e. NewEnableElectionPhase constants opKey p operator = Inl e \<longrightarrow>
         e = Err BadParameter ''server is required'' [])"
  by (auto simp: NewEnableElectionPhase_def split: option.splits)

theorem NewEnableElectionPhase_server_required_witness:
  "phase_Data (Phase ex_params_no_server) = Some \<lparr>data_Server = None\<rparr>
   \<and> NewEnableElectionPhase ex_constants ex_opKey ex_params_no_server () =
       Inl (Err BadParameter ''server is required'' [])
   \<and> phase_Data (Phase ex_params) = Some \<lparr>data_Server = Some ex_master\<rparr>
   \<and> NewEnableElectionPhase ex_constants ex_opKey ex_params () = Inr ex_executor"
proof -
  have no: "phase_Data (Phase ex_params_no_server) = Some \<lparr>data_Server = None\<rparr>"
    by (simp add: ex_params_no_server_def)
  then have "phase_Data (Phase ex_params_no_server) = None \<or>
         (\<exists>d. phase_Data (Phase ex_params_no_server) = Some d \<and> data_Server d = None)"
    by simp
  with NewEnableElectionPhase_server_required
         [where constants = ex_constants and opKey = ex_opKey and p = ex_params_no_server
            and operator = "()"]
  have r1: "NewEnableElectionPhase ex_constants ex_opKey ex_params_no_server () =
       Inl (Err BadParameter ''server is required'' [])"
    by blast
  have yes: "phase_Data (Phase ex_params) = Some \<lparr>data_Server = Some ex_master\<rparr>"
    by (simp add: ex_params_def)
  then have "phase_Data (Phase ex_params) = Some \<lparr>data_Server = Some ex_master\<rparr> \<and>
      data_Server \<lparr>data_Server = Some ex_master\<rparr> = Some ex_master"
    by simp
  with NewEnableElectionPhase_server_required
         [where constants = ex_constants and opKey = ex_opKey and p = ex_params
            and operator = "()"]
  obtain executor :: "(string \<times> string, unit) enableElectionExecutor" where
    "NewEnableElectionPhase ex_constants ex_opKey ex_params () = Inr executor"
    by blast
  moreover have "NewEnableElectionPhase ex_constants ex_opKey ex_params () = Inr ex_executor"
    by (simp add: NewEnableElectionPhase_def ex_params_def ex_executor_def ex_constants_def
          ex_opKey_def ex_plan_def ex_master_def)
  ultimately show ?thesis
    using no r1 yes by blast
qed

text \<open>
  C5. \<open>resumeLeader\<close> runs one command. It returns nil exactly when the command returns
  no error, whatever the output is. When the command fails, the error returned is the
  command's error wrapped in a message with the server's advertise IP and the output of
  the command.
\<close>

theorem resumeLeader_pass_fail:
  assumes "run (effects w) (resume_args (ExecutorParams p) server) = ((out, err), d)"
  shows "(fst (resumeLeader run p ctx server w) = None \<longleftrightarrow> err = None)
       \<and> (\<forall>e. err = Some e \<longrightarrow>
             fst (resumeLeader run p ctx server w) =
               Some (Wrap e resume_failed_format [AdvertiseIP server, out]) \<and>
             Unwrap (Wrap e resume_failed_format [AdvertiseIP server, out]) = Unwrap e)
       \<and> snd (resumeLeader run p ctx server w) =
           \<lparr>now = now w + d,
            effects = effects w @ [Command (resume_args (ExecutorParams p) server)]\<rparr>"
  using assms by (auto simp: resumeLeader_def RunPlanetCommand_def split: option.splits)

theorem resumeLeader_pass_fail_witness:
  "ex_run_down (effects ex_world) (resume_args (ExecutorParams ex_executor) ex_master) =
     ((''dial tcp 10.0.0.1:7575: connection refused'', Some (Err Other ''exit status 255'' [])), 3)
   \<and> fst (resumeLeader ex_run_down ex_executor () ex_master ex_world) =
       Some (Wrap (Err Other ''exit status 255'' []) resume_failed_format
               [''10.0.0.1'', ''dial tcp 10.0.0.1:7575: connection refused''])"
proof -
  have run: "ex_run_down (effects ex_world) (resume_args (ExecutorParams ex_executor) ex_master) =
     ((''dial tcp 10.0.0.1:7575: connection refused'', Some (Err Other ''exit status 255'' [])), 3)"
    by (simp add: ex_run_down_def)
  from resumeLeader_pass_fail
         [where run = ex_run_down and w = ex_world and p = ex_executor and server = ex_master
            and ctx = "()", OF run]
  have "fst (resumeLeader ex_run_down ex_executor () ex_master ex_world) =
       Some (Wrap (Err Other ''exit status 255'' []) resume_failed_format
               [AdvertiseIP ex_master, ''dial tcp 10.0.0.1:7575: connection refused''])"
    by blast
  then have "fst (resumeLeader ex_run_down ex_executor () ex_master ex_world) =
       Some (Wrap (Err Other ''exit status 255'' []) resume_failed_format
               [''10.0.0.1'', ''dial tcp 10.0.0.1:7575: connection refused''])"
    by (simp add: ex_master_def)
  with run show ?thesis
    by blast
qed

text \<open>
  C6. \<open>PreCheck\<close>, \<open>PostCheck\<close> and \<open>Rollback\<close> of the election executor return nil for every
  executor and every context.
\<close>

theorem enableElection_checks_noop:
  "PreCheck p ctx = None \<and> PostCheck p ctx = None \<and> Rollback p ctx = None"
  by (simp add: PreCheck_def PostCheck_def Rollback_def)

section \<open>Executing the election phase\<close>
































section \<open>Runtime package and versions\<close>

text \<open>
  C10. \<open>getRuntimePackage\<close> returns the manifest's runtime package of the profile when
  that lookup succeeds. An error of the lookup that is not NotFound is returned wrapped,
  whatever the dependencies are. On NotFound the legacy package is looked up among the
  dependencies, under the legacy node name for the node role and the legacy master name
  otherwise; it is returned if found, and a NotFound error naming the profile and the
  role is returned if not. The result is a NotFound error only in that last case.
\<close>

theorem getRuntimePackage_fallback:
  "(\<forall>pkg. RuntimePackage manifest profile = Inr pkg \<longrightarrow>
        getRuntimePackage loc schema manifest profile role = Inr pkg)
   \<and> (\<forall>e. RuntimePackage manifest profile = Inl e \<and> \<not> IsNotFound e \<longrightarrow>
        (\<forall>deps. getRuntimePackage loc schema (manifest\<lparr>Dependencies_ByName := deps\<rparr>)
                  profile role = Inl (Wrap0 e)) \<and>
        getRuntimePackage loc schema manifest profile role = Inl (Wrap0 e) \<and>
        \<not> IsNotFound (Wrap0 e))
   \<and> (\<forall>e. RuntimePackage manifest profile = Inl e \<and> IsNotFound e \<longrightarrow>
        getRuntimePackage loc schema manifest profile role =
          (case Dependencies_ByName manifest
                  (if role = ServiceRoleNode schema then loc_Name (LegacyPlanetNode loc)
                   else loc_Name (LegacyPlanetMaster loc)) of
             Inr pkg \<Rightarrow> Inr pkg
           | Inl e' \<Rightarrow>
               Inl (Err NotFound runtime_not_found_format [profile_Name profile, role])))
   \<and> ((\<exists>e. getRuntimePackage loc schema manifest profile role = Inl e \<and> IsNotFound e)
        \<longleftrightarrow> (\<exists>e e'. RuntimePackage manifest profile = Inl e \<and> IsNotFound e \<and>
              Dependencies_ByName manifest
                (if role = ServiceRoleNode schema then loc_Name (LegacyPlanetNode loc)
                 else loc_Name (LegacyPlanetMaster loc)) = Inl e'))"
  by (auto simp: getRuntimePackage_def Let_def split: sum.splits)

theorem getRuntimePackage_fallback_witness:
  "RuntimePackage ex_legacy_manifest \<lparr>profile_Name = ''worker''\<rparr> =
     Inl (Err NotFound ''runtime package not found'' [])
   \<and> IsNotFound (Err NotFound ''runtime package not found'' [])
   \<and> getRuntimePackage ex_loc ex_schema ex_legacy_manifest \<lparr>profile_Name = ''worker''\<rparr>
         ''master'' =
       Inr \<lparr>loc_Repository = ''gravitational.io'', loc_Name = ''planet-master'',
            loc_Version = ''5.0.0''\<rparr>
   \<and> getRuntimePackage ex_loc ex_schema ex_legacy_manifest \<lparr>profile_Name = ''worker''\<rparr>
         ''node'' =
       Inl (Err NotFound runtime_not_found_format [''worker'', ''node''])"
proof -
  let ?profile = "\<lparr>profile_Name = ''worker''\<rparr>"
  have nf: "RuntimePackage ex_legacy_manifest ?profile =
              Inl (Err NotFound ''runtime package not found'' []) \<and>
            IsNotFound (Err NotFound ''runtime package not found'' [])"
    by (simp add: ex_legacy_manifest_def)
  from getRuntimePackage_fallback
         [where manifest = ex_legacy_manifest and profile = ?profile and loc = ex_loc
            and schema = ex_schema and role = "''master''"] nf
  have "getRuntimePackage ex_loc ex_schema ex_legacy_manifest ?profile ''master'' =
          (case Dependencies_ByName ex_legacy_manifest
                  (if ''master'' = ServiceRoleNode ex_schema
                   then loc_Name (LegacyPlanetNode ex_loc)
                   else loc_Name (LegacyPlanetMaster ex_loc)) of
             Inr pkg \<Rightarrow> Inr pkg
           | Inl e' \<Rightarrow>
               Inl (Err NotFound runtime_not_found_format [profile_Name ?profile, ''master'']))"
    by blast
  then have r1: "getRuntimePackage ex_loc ex_schema ex_legacy_manifest ?profile ''master'' =
       Inr \<lparr>loc_Repository = ''gravitational.io'', loc_Name = ''planet-master'',
            loc_Version = ''5.0.0''\<rparr>"
    by (simp add: ex_legacy_manifest_def ex_schema_def ex_loc_def)
  from getRuntimePackage_fallback
         [where manifest = ex_legacy_manifest and profile = ?profile and loc = ex_loc
            and schema = ex_schema and role = "''node''"] nf
  have "getRuntimePackage ex_loc ex_schema ex_legacy_manifest ?profile ''node'' =
          (case Dependencies_ByName ex_legacy_manifest
                  (if ''node'' = ServiceRoleNode ex_schema
                   then loc_Name (LegacyPlanetNode ex_loc)
                   else loc_Name (LegacyPlanetMaster ex_loc)) of
             Inr pkg \<Rightarrow> Inr pkg
           | Inl e' \<Rightarrow>
               Inl (Err NotFound runtime_not_found_format [profile_Name ?profile, ''node'']))"
    by blast
  then have r2: "getRuntimePackage ex_loc ex_schema ex_legacy_manifest ?profile ''node'' =
       Inl (Err NotFound runtime_not_found_format [''worker'', ''node''])"
    by (simp add: ex_legacy_manifest_def ex_schema_def ex_loc_def)
  from nf r1 r2 show ?thesis
    by blast
qed

text \<open>
  C9. When every profile and package lookup and every version parse succeeds,
  \<open>systemNeedsUpdate\<close> returns no error, says that planet needs an update exactly when
  the installed runtime version is strictly less than the update's, and says the same of
  teleport with the teleport versions; equal versions and downgrades give false. In every
  other case it returns false, false and an error.
\<close>

theorem systemNeedsUpdate_versions:
  fixes SemVer :: "Locator \<Rightarrow> error + 'v::preorder"
  shows
  "(\<forall>ip up urp uv irp iv itp itv utp utv.
      NodeProfiles_ByName (app_Manifest installed) profile = Inr ip \<and>
      NodeProfiles_ByName (app_Manifest update) profile = Inr up \<and>
      RuntimePackage (app_Manifest update) up = Inr urp \<and>
      SemVer urp = Inr uv \<and>
      getRuntimePackage loc schema (app_Manifest installed) ip (ServiceRoleMaster schema) =
        Inr irp \<and>
      SemVer irp = Inr iv \<and>
      Dependencies_ByName (app_Manifest installed) (TeleportPackage constants) = Inr itp \<and>
      SemVer itp = Inr itv \<and>
      Dependencies_ByName (app_Manifest update) (TeleportPackage constants) = Inr utp \<and>
      SemVer utp = Inr utv
      \<longrightarrow> systemNeedsUpdate SemVer constants loc schema profile installed update =
            (iv < uv, itv < utv, None) \<and>
          (iv = uv \<or> uv < iv \<longrightarrow>
             \<not> fst (systemNeedsUpdate SemVer constants loc schema profile installed update)) \<and>
          (itv = utv \<or> utv < itv \<longrightarrow>
             \<not> fst (snd (systemNeedsUpdate SemVer constants loc schema profile installed
                          update))))
   \<and> ((\<exists>e. systemNeedsUpdate SemVer constants loc schema profile installed update =
            (False, False, Some e))
       \<or> (\<exists>ip up urp uv irp iv itp itv utp utv.
            NodeProfiles_ByName (app_Manifest installed) profile = Inr ip \<and>
            NodeProfiles_ByName (app_Manifest update) profile = Inr up \<and>
            RuntimePackage (app_Manifest update) up = Inr urp \<and>
            SemVer urp = Inr uv \<and>
            getRuntimePackage loc schema (app_Manifest installed) ip
              (ServiceRoleMaster schema) = Inr irp \<and>
            SemVer irp = Inr iv \<and>
            Dependencies_ByName (app_Manifest installed) (TeleportPackage constants) =
              Inr itp \<and>
            SemVer itp = Inr itv \<and>
            Dependencies_ByName (app_Manifest update) (TeleportPackage constants) =
              Inr utp \<and>
            SemVer utp = Inr utv \<and>
            systemNeedsUpdate SemVer constants loc schema profile installed update =
              (iv < uv, itv < utv, None)))"
  by (auto simp: systemNeedsUpdate_def failed_def split: sum.splits dest: less_not_sym)

theorem systemNeedsUpdate_versions_witness:
  "NodeProfiles_ByName (ex_manifest ''5.0.0'') ''worker'' = Inr \<lparr>profile_Name = ''worker''\<rparr>
   \<and> ex_SemVer \<lparr>loc_Repository = ''gravitational.io'', loc_Name = ''planet'',
                 loc_Version = ''5.0.0''\<rparr> = Inr (5, 0, 0)
   \<and> ex_SemVer \<lparr>loc_Repository = ''gravitational.io'', loc_Name = ''planet'',
                 loc_Version = ''5.2.0''\<rparr> = Inr (5, 2, 0)
   \<and> systemNeedsUpdate ex_SemVer ex_constants ex_loc ex_schema ''worker''
        \<lparr>app_Manifest = ex_manifest ''5.0.0''\<rparr> \<lparr>app_Manifest = ex_manifest ''5.2.0''\<rparr> =
       (True, False, None)
   \<and> systemNeedsUpdate ex_SemVer ex_constants ex_loc ex_schema ''worker''
        \<lparr>app_Manifest = ex_manifest ''5.2.0''\<rparr> \<lparr>app_Manifest = ex_manifest ''5.0.0''\<rparr> =
       (False, False, None)"
proof -
  let ?profile = "\<lparr>profile_Name = ''worker''\<rparr>"
  let ?planet = "\<lambda>v. \<lparr>loc_Repository = ''gravitational.io'', loc_Name = ''planet'',
                       loc_Version = v\<rparr>"
  let ?teleport = "\<lparr>loc_Repository = ''gravitational.io'', loc_Name = ''teleport'',
                     loc_Version = ''3.0.1''\<rparr>"
  have prof: "NodeProfiles_ByName (ex_manifest v) ''worker'' = Inr ?profile" for v
    by (simp add: ex_manifest_def)
  have rt: "RuntimePackage (ex_manifest v) ?profile = Inr (?planet v)" for v
    by (simp add: ex_manifest_def)
  have grt: "getRuntimePackage ex_loc ex_schema (ex_manifest v) ?profile
               (ServiceRoleMaster ex_schema) = Inr (?planet v)" for v
    by (simp add: getRuntimePackage_def ex_manifest_def)
  have tp: "Dependencies_ByName (ex_manifest v) (TeleportPackage ex_constants) = Inr ?teleport"
    for v
    by (simp add: ex_manifest_def ex_constants_def)
  have v50: "ex_SemVer (?planet ''5.0.0'') = Inr (5, 0, 0)"
    and v52: "ex_SemVer (?planet ''5.2.0'') = Inr (5, 2, 0)"
    and v30: "ex_SemVer ?teleport = Inr (3, 0, 1)"
    by (simp_all add: ex_SemVer_def)
  note up = systemNeedsUpdate_versions
         [where SemVer = ex_SemVer and constants = ex_constants and loc = ex_loc
            and schema = ex_schema and profile = "''worker''"
            and installed = "\<lparr>app_Manifest = ex_manifest ''5.0.0''\<rparr>"
            and update = "\<lparr>app_Manifest = ex_manifest ''5.2.0''\<rparr>",
          THEN conjunct1, rule_format, THEN conjunct1]
  note down = systemNeedsUpdate_versions
         [where SemVer = ex_SemVer and constants = ex_constants and loc = ex_loc
            and schema = ex_schema and profile = "''worker''"
            and installed = "\<lparr>app_Manifest = ex_manifest ''5.2.0''\<rparr>"
            and update = "\<lparr>app_Manifest = ex_manifest ''5.0.0''\<rparr>",
          THEN conjunct1, rule_format, THEN conjunct1]
  have hyps_up:
    "NodeProfiles_ByName (app_Manifest \<lparr>app_Manifest = ex_manifest ''5.0.0''\<rparr>) ''worker'' =
         Inr ?profile \<and>
       NodeProfiles_ByName (app_Manifest \<lparr>app_Manifest = ex_manifest ''5.2.0''\<rparr>) ''worker'' =
         Inr ?profile \<and>
       RuntimePackage (app_Manifest \<lparr>app_Manifest = ex_manifest ''5.2.0''\<rparr>) ?profile =
         Inr (?planet ''5.2.0'') \<and>
       ex_SemVer (?planet ''5.2.0'') = Inr (5, 2, 0) \<and>
       getRuntimePackage ex_loc ex_schema (app_Manifest \<lparr>app_Manifest = ex_manifest ''5.0.0''\<rparr>)
         ?profile (ServiceRoleMaster ex_schema) = Inr (?planet ''5.0.0'') \<and>
       ex_SemVer (?planet ''5.0.0'') = Inr (5, 0, 0) \<and>
       Dependencies_ByName (app_Manifest \<lparr>app_Manifest = ex_manifest ''5.0.0''\<rparr>)
         (TeleportPackage ex_constants) = Inr ?teleport \<and>
       ex_SemVer ?teleport = Inr (3, 0, 1) \<and>
       Dependencies_ByName (app_Manifest \<lparr>app_Manifest = ex_manifest ''5.2.0''\<rparr>)
         (TeleportPackage ex_constants) = Inr ?teleport \<and>
       ex_SemVer ?teleport = Inr (3, 0, 1)"
    by (simp add: prof rt grt tp v50 v52 v30)
  from up [OF hyps_up]
  have "systemNeedsUpdate ex_SemVer ex_constants ex_loc ex_schema ''worker''
        \<lparr>app_Manifest = ex_manifest ''5.0.0''\<rparr> \<lparr>app_Manifest = ex_manifest ''5.2.0''\<rparr> =
       ((5, 0, 0) < ((5, 2, 0) :: nat \<times> nat \<times> nat),
        (3, 0, 1) < ((3, 0, 1) :: nat \<times> nat \<times> nat), None)" .
  then have r1: "systemNeedsUpdate ex_SemVer ex_constants ex_loc ex_schema ''worker''
        \<lparr>app_Manifest = ex_manifest ''5.0.0''\<rparr> \<lparr>app_Manifest = ex_manifest ''5.2.0''\<rparr> =
       (True, False, None)"
    by (simp add: less_prod_def)
  have hyps_down:
    "NodeProfiles_ByName (app_Manifest \<lparr>app_Manifest = ex_manifest ''5.2.0''\<rparr>) ''worker'' =
         Inr ?profile \<and>
       NodeProfiles_ByName (app_Manifest \<lparr>app_Manifest = ex_manifest ''5.0.0''\<rparr>) ''worker'' =
         Inr ?profile \<and>
       RuntimePackage (app_Manifest \<lparr>app_Manifest = ex_manifest ''5.0.0''\<rparr>) ?profile =
         Inr (?planet ''5.0.0'') \<and>
       ex_SemVer (?planet ''5.0.0'') = Inr (5, 0, 0) \<and>
       getRuntimePackage ex_loc ex_schema (app_Manifest \<lparr>app_Manifest = ex_manifest ''5.2.0''\<rparr>)
         ?profile (ServiceRoleMaster ex_schema) = Inr (?planet ''5.2.0'') \<and>
       ex_SemVer (?planet ''5.2.0'') = Inr (5, 2, 0) \<and>
       Dependencies_ByName (app_Manifest \<lparr>app_Manifest = ex_manifest ''5.2.0''\<rparr>)
         (TeleportPackage ex_constants) = Inr ?teleport \<and>
       ex_SemVer ?teleport = Inr (3, 0, 1) \<and>
       Dependencies_ByName (app_Manifest \<lparr>app_Manifest = ex_manifest ''5.0.0''\<rparr>)
         (TeleportPackage ex_constants) = Inr ?teleport \<and>
       ex_SemVer ?teleport = Inr (3, 0, 1)"
    by (simp add: prof rt grt tp v50 v52 v30)
  from down [OF hyps_down]
  have "systemNeedsUpdate ex_SemVer ex_constants ex_loc ex_schema ''worker''
        \<lparr>app_Manifest = ex_manifest ''5.2.0''\<rparr> \<lparr>app_Manifest = ex_manifest ''5.0.0''\<rparr> =
       ((5, 2, 0) < ((5, 0, 0) :: nat \<times> nat \<times> nat),
        (3, 0, 1) < ((3, 0, 1) :: nat \<times> nat \<times> nat), None)" .
  then have r2: "systemNeedsUpdate ex_SemVer ex_constants ex_loc ex_schema ''worker''
        \<lparr>app_Manifest = ex_manifest ''5.2.0''\<rparr> \<lparr>app_Manifest = ex_manifest ''5.0.0''\<rparr> =
       (False, False, None)"
    by (simp add: less_prod_def)
  from prof [of "''5.0.0''"] v50 v52 r1 r2 show ?thesis
    by blast
qed

section \<open>The chart repository: the mutex\<close>

lemma grows_refl: "grows w w"
  by (simp add: grows_def)

lemma grows_trans: "grows w w1 \<Longrightarrow> grows w1 w2 \<Longrightarrow> grows w w2"
  unfolding grows_def by fastforce

lemma grows_log: "ev \<noteq> Lock \<Longrightarrow> ev \<noteq> Unlock \<Longrightarrow> grows w w1 \<Longrightarrow> grows w (log ev w1)"
  unfolding grows_def log_def by fastforce

lemma starts_grows: "starts w ev w1 \<Longrightarrow> grows w1 w2 \<Longrightarrow> starts w ev w2"
  unfolding grows_def starts_def by fastforce

lemma starts_imp_grows: "ev \<noteq> Lock \<Longrightarrow> ev \<noteq> Unlock \<Longrightarrow> starts w ev w1 \<Longrightarrow> grows w w1"
  unfolding grows_def starts_def by fastforce

lemma ReadPackage_starts:
  "ReadPackage ps locator w = (res, w1) \<Longrightarrow> starts w (EvReadPackage locator) w1"
  by (auto simp: ReadPackage_def starts_def split: prod.splits)

lemma UpsertPackage_grows:
  "UpsertPackage ps locator data w = (res, w1) \<Longrightarrow> grows w w1"
  by (auto simp: UpsertPackage_def grows_def split: prod.splits)

lemma digest_starts:
  "digest lib ps locator w = (res, w') \<Longrightarrow> starts w (EvReadPackage locator) w'"
proof -
  assume a: "digest lib ps locator w = (res, w')"
  obtain r w1 where rp: "ReadPackage ps locator w = (r, w1)"
    by (metis surj_pair)
  note s1 = ReadPackage_starts [OF rp]
  have "grows w1 w'"
    using a rp by (auto simp: digest_def split: sum.splits intro!: grows_log grows_refl)
  with s1 show ?thesis by (rule starts_grows)
qed

lemma getIndexFile_starts:
  "getIndexFile lib ps w = (res, w') \<Longrightarrow> starts w (EvReadPackage indexLoc) w'"
proof -
  assume a: "getIndexFile lib ps w = (res, w')"
  obtain r w1 where rp: "ReadPackage ps indexLoc w = (r, w1)"
    by (metis surj_pair)
  note s1 = ReadPackage_starts [OF rp]
  have "grows w1 w'"
    using a rp
    by (auto simp: getIndexFile_def split: sum.splits option.splits intro!: grows_log grows_refl)
  with s1 show ?thesis by (rule starts_grows)
qed

lemma removeFromIndex_locked_starts:
  "removeFromIndex_locked lib ps chartName chartVersion w = (res, w') \<Longrightarrow>
   starts w (EvReadPackage indexLoc) w'"
proof -
  assume a: "removeFromIndex_locked lib ps chartName chartVersion w = (res, w')"
  obtain r w1 where gi: "getIndexFile lib ps w = (r, w1)"
    by (metis surj_pair)
  note s1 = getIndexFile_starts [OF gi]
  have "grows w1 w'"
    using a gi
    by (auto simp: removeFromIndex_locked_def
             split: sum.splits option.splits prod.splits
             intro: grows_refl UpsertPackage_grows)
  with s1 show ?thesis by (rule starts_grows)
qed

lemma addToIndex_update_grows:
  "addToIndex_update lib ps chart dig w = (res, w') \<Longrightarrow> grows w w'"
proof -
  assume a: "addToIndex_update lib ps chart dig w = (res, w')"
  obtain r w1 where gi: "getIndexFile lib ps w = (r, w1)"
    by (metis surj_pair)
  have g1: "grows w w1"
    using getIndexFile_starts [OF gi] by (rule starts_imp_grows [rotated 2]) simp_all
  have "grows w1 w'"
    using a gi
    by (auto simp: addToIndex_update_def
             split: sum.splits option.splits prod.splits if_splits
             intro: grows_refl UpsertPackage_grows)
  with g1 show ?thesis by (rule grows_trans)
qed

lemma addToIndex_locked_starts:
  "addToIndex_locked lib ps locator w = (res, w') \<Longrightarrow>
   starts w (EvReadPackage locator) w'"
proof -
  assume a: "addToIndex_locked lib ps locator w = (res, w')"
  obtain r w1 where rp: "ReadPackage ps locator w = (r, w1)"
    by (metis surj_pair)
  note s1 = ReadPackage_starts [OF rp]
  have close: "grows w1 (log EvClose w3)" if "grows w1 w3" for w3
    using that by (intro grows_log) simp_all
  have gl: "grows w1 (log EvLoadArchive w1)"
    by (intro grows_log grows_refl) simp_all
  have "grows w1 w'"
  proof (cases r)
    case (Inl err)
    then have "w' = w1"
      using a unfolding addToIndex_locked_def rp by simp
    then show ?thesis by (simp add: grows_refl)
  next
    case (Inr reader)
    show ?thesis
    proof (cases "LoadArchive lib reader")
      case (Inl err)
      then have "w' = log EvClose (log EvLoadArchive w1)"
        using a Inr unfolding addToIndex_locked_def rp by simp
      then show ?thesis using close [OF gl] by simp
    next
      case chart: (Inr chart)
      obtain d w2 where dg: "digest lib ps locator (log EvLoadArchive w1) = (d, w2)"
        by (metis surj_pair)
      have "grows (log EvLoadArchive w1) w2"
        using digest_starts [OF dg] by (rule starts_imp_grows [rotated 2]) simp_all
      with gl have g2: "grows w1 w2"
        by (rule grows_trans)
      show ?thesis
      proof (cases d)
        case (Inl err)
        then have "w' = log EvClose w2"
          using a Inr chart unfolding addToIndex_locked_def rp by (simp add: dg)
        then show ?thesis using close [OF g2] by simp
      next
        case dig: (Inr dig)
        obtain r3 w3 where up: "addToIndex_update lib ps chart dig w2 = (r3, w3)"
          by (metis surj_pair)
        have g3: "grows w1 w3"
          using g2 addToIndex_update_grows [OF up] by (rule grows_trans)
        have "w' = log EvClose w3"
          using a Inr chart dig unfolding addToIndex_locked_def rp by (simp add: dg up)
        then show ?thesis using close [OF g3] by simp
      qed
    qed
  qed
  with s1 show ?thesis by (rule starts_grows)
qed

lemma addToIndex_trace:
  "\<exists>evs. trace (snd (addToIndex lib ps locator w)) =
           trace w @ [Lock, EvReadPackage locator] @ evs @ [Unlock] \<and>
         Lock \<notin> set evs \<and> Unlock \<notin> set evs"
proof -
  obtain r w1 where b: "addToIndex_locked lib ps locator (log Lock w) = (r, w1)"
    by (metis surj_pair)
  from addToIndex_locked_starts [OF b] obtain evs where
    "trace w1 = trace (log Lock w) @ EvReadPackage locator # evs"
    "Lock \<notin> set evs" "Unlock \<notin> set evs"
    unfolding starts_def by blast
  moreover have "trace (snd (addToIndex lib ps locator w)) = trace w1 @ [Unlock]"
    unfolding addToIndex_def b by (simp add: log_def)
  ultimately show ?thesis
    by (intro exI [of _ evs]) (simp add: log_def)
qed

lemma removeFromIndex_trace:
  "\<exists>evs. trace (snd (removeFromIndex lib ps chartName chartVersion w)) =
           trace w @ [Lock, EvReadPackage indexLoc] @ evs @ [Unlock] \<and>
         Lock \<notin> set evs \<and> Unlock \<notin> set evs"
proof -
  obtain r w1 where b: "removeFromIndex_locked lib ps chartName chartVersion (log Lock w) = (r, w1)"
    by (metis surj_pair)
  from removeFromIndex_locked_starts [OF b] obtain evs where
    "trace w1 = trace (log Lock w) @ EvReadPackage indexLoc # evs"
    "Lock \<notin> set evs" "Unlock \<notin> set evs"
    unfolding starts_def by blast
  moreover have "trace (snd (removeFromIndex lib ps chartName chartVersion w)) =
      trace w1 @ [Unlock]"
    unfolding removeFromIndex_def b by (simp add: log_def)
  ultimately show ?thesis
    by (intro exI [of _ evs]) (simp add: log_def)
qed

lemma PutChart_trace:
  assumes "NewLocator lib ''charts'' name version = Inr locator"
  shows "\<exists>evs. trace (snd (PutChart lib ps name version data w)) =
                 trace w @ EvCreatePackage locator # evs \<and>
               (evs = [] \<or>
                (\<exists>mid. evs = [Lock, EvReadPackage locator] @ mid @ [Unlock] \<and>
                       Lock \<notin> set mid \<and> Unlock \<notin> set mid))"
proof -
  obtain res w1 where cp: "CreatePackage ps locator data w = (res, w1)"
    by (metis surj_pair)
  have t1: "trace w1 = trace w @ [EvCreatePackage locator]"
    using cp by (auto simp: CreatePackage_def split: prod.splits)
  show ?thesis
  proof (cases res)
    case (Some err)
    then have "snd (PutChart lib ps name version data w) = w1"
      by (simp add: PutChart_def assms cp)
    with t1 show ?thesis by simp
  next
    case None
    obtain r2 w2 where ai: "addToIndex lib ps locator w1 = (r2, w2)"
      by (metis surj_pair)
    have "snd (PutChart lib ps name version data w) = w2"
      using None by (simp add: PutChart_def assms cp ai split: go.splits option.splits)
    moreover from addToIndex_trace [of lib ps locator w1] ai obtain mid where
      "trace w2 = trace w1 @ [Lock, EvReadPackage locator] @ mid @ [Unlock]"
      "Lock \<notin> set mid" "Unlock \<notin> set mid"
      by auto
    ultimately show ?thesis
      using t1 by simp
  qed
qed

lemma DeleteChart_trace:
  assumes "NewLocator lib ''charts'' chartName chartVersion = Inr locator"
  shows "\<exists>mid evs. trace (snd (DeleteChart lib ps chartName chartVersion w)) =
                 trace w @ [Lock, EvReadPackage indexLoc] @ mid @ [Unlock] @ evs \<and>
               Lock \<notin> set mid \<and> Unlock \<notin> set mid \<and>
               (evs = [] \<or> evs = [EvDeletePackage locator])"
proof -
  obtain r1 w1 where ri: "removeFromIndex lib ps chartName chartVersion w = (r1, w1)"
    by (metis surj_pair)
  from removeFromIndex_trace [of lib ps chartName chartVersion w] ri obtain mid where
    t1: "trace w1 = trace w @ [Lock, EvReadPackage indexLoc] @ mid @ [Unlock]"
    and lf: "Lock \<notin> set mid" "Unlock \<notin> set mid"
    by auto
  obtain r2 w2 where dp: "DeletePackage ps locator w1 = (r2, w2)"
    by (metis surj_pair)
  have t2: "trace w2 = trace w1 @ [EvDeletePackage locator]"
    using dp by (auto simp: DeletePackage_def split: prod.splits)
  have "snd (DeleteChart lib ps chartName chartVersion w) = w1 \<or>
        snd (DeleteChart lib ps chartName chartVersion w) = w2"
    by (simp add: DeleteChart_def assms ri dp split: go.splits option.splits)
  then show ?thesis
  proof
    assume "snd (DeleteChart lib ps chartName chartVersion w) = w1"
    with t1 lf show ?thesis
      by (intro exI [of _ mid] exI [of _ "[]"]) simp
  next
    assume "snd (DeleteChart lib ps chartName chartVersion w) = w2"
    with t1 t2 lf show ?thesis
      by (intro exI [of _ mid] exI [of _ "[EvDeletePackage locator]"]) simp
  qed
qed

lemma io_under_lock: "\<not> io_outside_lock False ([Lock, EvReadPackage locator] @ evs)"
  by simp

text \<open>
  C7, as the code has it. \<open>addToIndex\<close> and \<open>removeFromIndex\<close> take the mutex first and
  release it last, on every path, and neither takes nor releases it in between. The
  first thing done under the mutex is an I/O call, the read of the chart's package or of
  the index package, so the discipline "no I/O call while the mutex is held" fails for
  every call. \<open>PutChart\<close> creates the package before the mutex is taken, and
  \<open>DeleteChart\<close> deletes the package after it is released.
\<close>

theorem index_mutex_held_across_io:
  "(\<exists>evs. trace (snd (addToIndex lib ps locator w)) =
            trace w @ [Lock, EvReadPackage locator] @ evs @ [Unlock] \<and>
          Lock \<notin> set evs \<and> Unlock \<notin> set evs \<and>
          \<not> io_outside_lock False ([Lock, EvReadPackage locator] @ evs @ [Unlock]))
   \<and> (\<exists>evs. trace (snd (removeFromIndex lib ps chartName chartVersion w)) =
            trace w @ [Lock, EvReadPackage indexLoc] @ evs @ [Unlock] \<and>
          Lock \<notin> set evs \<and> Unlock \<notin> set evs \<and>
          \<not> io_outside_lock False ([Lock, EvReadPackage indexLoc] @ evs @ [Unlock]))
   \<and> (\<forall>l. NewLocator lib ''charts'' name version = Inr l \<longrightarrow>
         (\<exists>evs. trace (snd (PutChart lib ps name version data w)) =
                  trace w @ EvCreatePackage l # evs \<and>
                (evs = [] \<or>
                 (\<exists>mid. evs = [Lock, EvReadPackage l] @ mid @ [Unlock] \<and>
                        Lock \<notin> set mid \<and> Unlock \<notin> set mid))))
   \<and> (\<forall>l. NewLocator lib ''charts'' chartName chartVersion = Inr l \<longrightarrow>
         (\<exists>mid evs. trace (snd (DeleteChart lib ps chartName chartVersion w)) =
                  trace w @ [Lock, EvReadPackage indexLoc] @ mid @ [Unlock] @ evs \<and>
                Lock \<notin> set mid \<and> Unlock \<notin> set mid \<and>
                (evs = [] \<or> evs = [EvDeletePackage l])))"
proof (intro conjI allI impI)
  from addToIndex_trace [of lib ps locator w] obtain evs where
    "trace (snd (addToIndex lib ps locator w)) =
       trace w @ [Lock, EvReadPackage locator] @ evs @ [Unlock]"
    "Lock \<notin> set evs" "Unlock \<notin> set evs"
    by blast
  moreover have "\<not> io_outside_lock False ([Lock, EvReadPackage locator] @ evs @ [Unlock])"
    by (rule io_under_lock)
  ultimately show "\<exists>evs. trace (snd (addToIndex lib ps locator w)) =
            trace w @ [Lock, EvReadPackage locator] @ evs @ [Unlock] \<and>
          Lock \<notin> set evs \<and> Unlock \<notin> set evs \<and>
          \<not> io_outside_lock False ([Lock, EvReadPackage locator] @ evs @ [Unlock])"
    by blast
next
  from removeFromIndex_trace [of lib ps chartName chartVersion w] obtain evs where
    "trace (snd (removeFromIndex lib ps chartName chartVersion w)) =
       trace w @ [Lock, EvReadPackage indexLoc] @ evs @ [Unlock]"
    "Lock \<notin> set evs" "Unlock \<notin> set evs"
    by blast
  moreover have "\<not> io_outside_lock False ([Lock, EvReadPackage indexLoc] @ evs @ [Unlock])"
    by (rule io_under_lock)
  ultimately show "\<exists>evs. trace (snd (removeFromIndex lib ps chartName chartVersion w)) =
            trace w @ [Lock, EvReadPackage indexLoc] @ evs @ [Unlock] \<and>
          Lock \<notin> set evs \<and> Unlock \<notin> set evs \<and>
          \<not> io_outside_lock False ([Lock, EvReadPackage indexLoc] @ evs @ [Unlock])"
    by blast
next
  fix l
  assume "NewLocator lib ''charts'' name version = Inr l"
  then show "\<exists>evs. trace (snd (PutChart lib ps name version data w)) =
                  trace w @ EvCreatePackage l # evs \<and>
                (evs = [] \<or>
                 (\<exists>mid. evs = [Lock, EvReadPackage l] @ mid @ [Unlock] \<and>
                        Lock \<notin> set mid \<and> Unlock \<notin> set mid))"
    by (rule PutChart_trace)
next
  fix l
  assume "NewLocator lib ''charts'' chartName chartVersion = Inr l"
  then show "\<exists>mid evs. trace (snd (DeleteChart lib ps chartName chartVersion w)) =
                  trace w @ [Lock, EvReadPackage indexLoc] @ mid @ [Unlock] @ evs \<and>
                Lock \<notin> set mid \<and> Unlock \<notin> set mid \<and>
                (evs = [] \<or> evs = [EvDeletePackage l])"
    by (rule DeleteChart_trace)
qed

text \<open>
  The claim as the specification states it (the mutex is never held across an I/O call)
  fails on the call that adds the first chart to an empty index: the call succeeds, and
  all its I/O happens between \<open>Lock\<close> and \<open>Unlock\<close>.
\<close>

theorem index_mutex_only_for_mutation_counterexample:
  "fst (addToIndex ex_lib ex_ps ex_chart \<lparr>store = ex_store_chart, trace = []\<rparr>) = Return None
   \<and> trace (snd (addToIndex ex_lib ex_ps ex_chart \<lparr>store = ex_store_chart, trace = []\<rparr>)) =
       [Lock, EvReadPackage ex_chart, EvLoadArchive, EvReadPackage ex_chart, EvDigest,
        EvClose, EvReadPackage indexLoc, EvUpsertPackage indexLoc ''apiVersion: v1'',
        EvClose, Unlock]
   \<and> \<not> io_outside_lock False
         (trace (snd (addToIndex ex_lib ex_ps ex_chart \<lparr>store = ex_store_chart, trace = []\<rparr>)))"
proof -
  have neq: "ex_chart \<noteq> indexLoc"
    by (simp add: ex_chart_def indexLoc_def)
  have "addToIndex ex_lib ex_ps ex_chart \<lparr>store = ex_store_chart, trace = []\<rparr> =
      (Return None,
       \<lparr>store = ex_store_chart(indexLoc \<mapsto> ''apiVersion: v1''),
        trace = [Lock, EvReadPackage ex_chart, EvLoadArchive, EvReadPackage ex_chart, EvDigest,
                 EvClose, EvReadPackage indexLoc, EvUpsertPackage indexLoc ''apiVersion: v1'',
                 EvClose, Unlock]\<rparr>)"
    using neq
    by (simp add: addToIndex_def addToIndex_locked_def addToIndex_update_def digest_def
          getIndexFile_def ReadPackage_def UpsertPackage_def log_def ex_lib_def ex_ps_def
          ex_store_chart_def)
  then show ?thesis
    by simp
qed

theorem index_mutex_held_across_io_witness:
  "NewLocator ex_lib ''charts'' ''nginx'' ''1.0.0'' = Inr ex_chart
   \<and> (\<exists>evs. trace (snd (PutChart ex_lib ex_ps ''nginx'' ''1.0.0'' (Inr ''nginx-1.0.0.tgz'')
                          \<lparr>store = Map.empty, trace = []\<rparr>)) =
              [] @ EvCreatePackage ex_chart # evs \<and>
            (evs = [] \<or>
             (\<exists>mid. evs = [Lock, EvReadPackage ex_chart] @ mid @ [Unlock] \<and>
                    Lock \<notin> set mid \<and> Unlock \<notin> set mid)))
   \<and> (\<exists>mid evs. trace (snd (DeleteChart ex_lib ex_ps ''nginx'' ''1.0.0''
                          \<lparr>store = ex_store_both, trace = []\<rparr>)) =
              [] @ [Lock, EvReadPackage indexLoc] @ mid @ [Unlock] @ evs \<and>
            Lock \<notin> set mid \<and> Unlock \<notin> set mid \<and>
            (evs = [] \<or> evs = [EvDeletePackage ex_chart]))"
proof -
  have l: "NewLocator ex_lib ''charts'' ''nginx'' ''1.0.0'' = Inr ex_chart"
    by (simp add: ex_lib_def ex_chart_def)
  note put = index_mutex_held_across_io
      [where lib = ex_lib and ps = ex_ps and name = "''nginx''" and version = "''1.0.0''"
         and data = "Inr ''nginx-1.0.0.tgz''" and w = "\<lparr>store = Map.empty, trace = []\<rparr>",
       THEN conjunct2, THEN conjunct2, THEN conjunct1, rule_format, OF l]
  note del = index_mutex_held_across_io
      [where lib = ex_lib and ps = ex_ps and chartName = "''nginx''"
         and chartVersion = "''1.0.0''" and w = "\<lparr>store = ex_store_both, trace = []\<rparr>",
       THEN conjunct2, THEN conjunct2, THEN conjunct2, rule_format, OF l]
  from l put del show ?thesis
    by simp
qed

section \<open>The chart repository: reading the index\<close>

lemma store_log [simp]: "store (log ev w) = store w"
  by (simp add: log_def)

lemma getIndexFile_never_index:
  "fst (getIndexFile lib ps w) \<noteq> Inr (Some indexFile)"
  by (simp add: getIndexFile_def split: prod.splits sum.splits option.splits)

lemma getIndexFile_payload:
  assumes "ps_ReadPackage ps indexLoc (store w) = (Inr (Inr data), s')"
    and "yaml_Unmarshal lib data None = Some e"
  shows "fst (getIndexFile lib ps w) = Inl (Wrap0 e)"
  using assms by (simp add: getIndexFile_def ReadPackage_def)

lemma getIndexFile_NotFound:
  assumes nil: "\<forall>data. \<exists>e. yaml_Unmarshal lib data None = Some e \<and> \<not> IsNotFound e"
    and res: "fst (getIndexFile lib ps w) = Inl err" and nf: "IsNotFound err"
  shows "\<exists>s' err'. (ps_ReadPackage ps indexLoc (store w) = (Inl err', s') \<or>
                     ps_ReadPackage ps indexLoc (store w) = (Inr (Inl err'), s')) \<and>
                    IsNotFound err'"
proof -
  obtain r s' where rd: "ps_ReadPackage ps indexLoc (store w) = (r, s')"
    by (metis surj_pair)
  show ?thesis
  proof (cases r)
    case (Inl e1)
    then have "err = Wrap0 e1"
      using res by (simp add: getIndexFile_def ReadPackage_def rd)
    with nf rd Inl show ?thesis by auto
  next
    case (Inr reader)
    show ?thesis
    proof (cases reader)
      case (Inl e1)
      then have "err = Wrap0 e1"
        using res Inr by (simp add: getIndexFile_def ReadPackage_def rd)
      with nf rd Inr Inl show ?thesis by auto
    next
      case data: (Inr data)
      from nil obtain e where e: "yaml_Unmarshal lib data None = Some e" "\<not> IsNotFound e"
        by blast
      have "fst (getIndexFile lib ps w) = Inl (Wrap0 e)"
        using rd Inr data e(1) by (intro getIndexFile_payload) simp_all
      with res nf e(2) show ?thesis by auto
    qed
  qed
qed

lemma removeFromIndex_never_nil:
  "fst (removeFromIndex lib ps chartName chartVersion w) \<noteq> Return None"
proof -
  obtain r w1 where gi: "getIndexFile lib ps (log Lock w) = (r, w1)"
    by (metis surj_pair)
  have "r \<noteq> Inr (Some indexFile)" for indexFile
    using getIndexFile_never_index [of lib ps "log Lock w" indexFile] gi by simp
  then show ?thesis
    by (cases r; cases "projr r")
       (auto simp: removeFromIndex_def removeFromIndex_locked_def gi)
qed

lemma DeleteChart_never_nil:
  "fst (DeleteChart lib ps chartName chartVersion w) \<noteq> Return None"
proof (cases "NewLocator lib ''charts'' chartName chartVersion")
  case (Inl err)
  then show ?thesis by (simp add: DeleteChart_def)
next
  case (Inr l)
  obtain r w1 where ri: "removeFromIndex lib ps chartName chartVersion w = (r, w1)"
    by (metis surj_pair)
  have "r \<noteq> Return None"
    using removeFromIndex_never_nil [of lib ps chartName chartVersion w] ri by simp
  then show ?thesis
    by (cases r) (auto simp: DeleteChart_def Inr ri split: option.splits)
qed

lemma removeFromIndex_payload:
  assumes "ps_ReadPackage ps indexLoc (store w) = (Inr (Inr data), s')"
    and "yaml_Unmarshal lib data None = Some e"
  shows "fst (removeFromIndex lib ps chartName chartVersion w) =
           Return (Some (Wrap0 (Wrap0 e)))"
proof -
  have "fst (getIndexFile lib ps (log Lock w)) = Inl (Wrap0 e)"
    using assms by (intro getIndexFile_payload) simp_all
  then obtain w1 where "getIndexFile lib ps (log Lock w) = (Inl (Wrap0 e), w1)"
    by (metis prod.collapse)
  then show ?thesis
    by (simp add: removeFromIndex_def removeFromIndex_locked_def)
qed

lemma DeleteChart_payload:
  assumes "NewLocator lib ''charts'' chartName chartVersion = Inr l"
    and "ps_ReadPackage ps indexLoc (store w) = (Inr (Inr data), s')"
    and "yaml_Unmarshal lib data None = Some e"
  shows "fst (DeleteChart lib ps chartName chartVersion w) =
           Return (Some (Wrap0 (Wrap0 (Wrap0 e))))"
proof -
  from removeFromIndex_payload [OF assms(2,3), of chartName chartVersion]
  obtain w1 where "removeFromIndex lib ps chartName chartVersion w =
      (Return (Some (Wrap0 (Wrap0 e))), w1)"
    by (metis prod.collapse)
  then show ?thesis
    by (simp add: DeleteChart_def assms(1))
qed

lemma addToIndex_update_payload:
  assumes "ps_ReadPackage ps indexLoc (store w) = (Inr (Inr data), s')"
    and "yaml_Unmarshal lib data None = Some e" and "\<not> IsNotFound e"
  shows "fst (addToIndex_update lib ps chart dig w) = Return (Some (Wrap0 (Wrap0 e)))"
proof -
  from getIndexFile_payload [OF assms(1,2)]
  obtain w1 where "getIndexFile lib ps w = (Inl (Wrap0 e), w1)"
    by (metis prod.collapse)
  then show ?thesis
    using assms(3) by (simp add: addToIndex_update_def)
qed

lemma addToIndex_payload:
  assumes "ps_ReadPackage ps locator (store w) = (Inr rd, s1)"
    and "LoadArchive lib rd = Inr chart"
    and "ps_ReadPackage ps locator s1 = (Inr rd2, s2)"
    and "Digest lib rd2 = Inr dig"
    and "ps_ReadPackage ps indexLoc s2 = (Inr (Inr data), s3)"
    and "yaml_Unmarshal lib data None = Some e" and "\<not> IsNotFound e"
  shows "fst (addToIndex lib ps locator w) = Return (Some (Wrap0 (Wrap0 e)))"
proof -
  let ?w1 = "\<lparr>store = s1, trace = trace (log Lock w) @ [EvReadPackage locator]\<rparr>"
  let ?w2 = "\<lparr>store = s2, trace = trace (log EvLoadArchive ?w1) @ [EvReadPackage locator]\<rparr>"
  let ?w3 = "log EvClose (log EvDigest ?w2)"
  have rp: "ReadPackage ps locator (log Lock w) = (Inr rd, ?w1)"
    using assms(1) by (simp add: ReadPackage_def)
  have rp2: "ReadPackage ps locator (log EvLoadArchive ?w1) = (Inr rd2, ?w2)"
    using assms(3) by (simp add: ReadPackage_def)
  have dg: "digest lib ps locator (log EvLoadArchive ?w1) = (Inr dig, ?w3)"
    by (simp add: digest_def rp2 assms(4))
  have "store ?w3 = s2"
    by simp
  with assms(5) have "ps_ReadPackage ps indexLoc (store ?w3) = (Inr (Inr data), s3)"
    by simp
  from addToIndex_update_payload [OF this assms(6,7), of chart dig]
  obtain w4 where up: "addToIndex_update lib ps chart dig ?w3 =
      (Return (Some (Wrap0 (Wrap0 e))), w4)"
    by (metis prod.collapse)
  have "addToIndex_locked lib ps locator (log Lock w) =
      (Return (Some (Wrap0 (Wrap0 e))), log EvClose w4)"
    by (simp add: addToIndex_locked_def rp assms(2) dg up)
  then show ?thesis
    by (simp add: addToIndex_def)
qed

lemma PutChart_payload:
  assumes "NewLocator lib ''charts'' name version = Inr l"
    and "ps_CreatePackage ps l content (store w) = (None, s0)"
    and "ps_ReadPackage ps l s0 = (Inr rd, s1)"
    and "LoadArchive lib rd = Inr chart"
    and "ps_ReadPackage ps l s1 = (Inr rd2, s2)"
    and "Digest lib rd2 = Inr dig"
    and "ps_ReadPackage ps indexLoc s2 = (Inr (Inr data), s3)"
    and "yaml_Unmarshal lib data None = Some e" and "\<not> IsNotFound e"
  shows "fst (PutChart lib ps name version content w) =
           Return (Some (Wrap0 (Wrap0 (Wrap0 e))))"
proof -
  let ?w0 = "\<lparr>store = s0, trace = trace w @ [EvCreatePackage l]\<rparr>"
  have cp: "CreatePackage ps l content w = (None, ?w0)"
    using assms(2) by (simp add: CreatePackage_def)
  have "ps_ReadPackage ps l (store ?w0) = (Inr rd, s1)"
    using assms(3) by simp
  from addToIndex_payload [OF this assms(4-9)]
  obtain w1 where "addToIndex lib ps l ?w0 = (Return (Some (Wrap0 (Wrap0 e))), w1)"
    by (metis prod.collapse)
  then show ?thesis
    by (simp add: PutChart_def assms(1) cp)
qed

lemma addToIndex_update_nil:
  assumes nil: "\<forall>data. \<exists>e. yaml_Unmarshal lib data None = Some e \<and> \<not> IsNotFound e"
    and res: "fst (addToIndex_update lib ps chart dig w) = Return None"
  shows "\<exists>s' err. (ps_ReadPackage ps indexLoc (store w) = (Inl err, s') \<or>
                    ps_ReadPackage ps indexLoc (store w) = (Inr (Inl err), s')) \<and>
                   IsNotFound err"
proof -
  obtain r w1 where gi: "getIndexFile lib ps w = (r, w1)"
    by (metis surj_pair)
  have no: "r \<noteq> Inr (Some indexFile)" for indexFile
    using getIndexFile_never_index [of lib ps w indexFile] gi by simp
  show ?thesis
  proof (cases r)
    case (Inl err)
    have "IsNotFound err"
      using res by (auto simp: addToIndex_update_def gi Inl split: if_splits)
    with getIndexFile_NotFound [OF nil, of ps w err] gi Inl show ?thesis
      by simp
  next
    case (Inr p)
    with no have "p = None" by (cases p) auto
    with res Inr show ?thesis
      by (simp add: addToIndex_update_def gi)
  qed
qed

lemma addToIndex_nil:
  assumes nil: "\<forall>data. \<exists>e. yaml_Unmarshal lib data None = Some e \<and> \<not> IsNotFound e"
    and res: "fst (addToIndex lib ps locator w) = Return None"
  shows "\<exists>s s' err. (ps_ReadPackage ps indexLoc s = (Inl err, s') \<or>
                      ps_ReadPackage ps indexLoc s = (Inr (Inl err), s')) \<and>
                     IsNotFound err"
proof -
  have locked: "fst (addToIndex_locked lib ps locator (log Lock w)) = Return None"
    using res by (simp add: addToIndex_def split: prod.splits)
  obtain r w1 where rp: "ReadPackage ps locator (log Lock w) = (r, w1)"
    by (metis surj_pair)
  from locked obtain reader where r: "r = Inr reader"
    by (cases r) (auto simp: addToIndex_locked_def rp)
  from locked obtain chart where chart: "LoadArchive lib reader = Inr chart"
    by (cases "LoadArchive lib reader") (auto simp: addToIndex_locked_def rp r)
  obtain d w2 where dg: "digest lib ps locator (log EvLoadArchive w1) = (d, w2)"
    by (metis surj_pair)
  from locked obtain dig where d: "d = Inr dig"
    by (cases d) (auto simp: addToIndex_locked_def rp r chart dg)
  have "fst (addToIndex_update lib ps chart dig w2) = Return None"
    using locked by (simp add: addToIndex_locked_def rp r chart dg d split: prod.splits)
  from addToIndex_update_nil [OF nil this] show ?thesis
    by blast
qed

lemma PutChart_nil:
  assumes nil: "\<forall>data. \<exists>e. yaml_Unmarshal lib data None = Some e \<and> \<not> IsNotFound e"
    and res: "fst (PutChart lib ps name version content w) = Return None"
  shows "\<exists>s s' err. (ps_ReadPackage ps indexLoc s = (Inl err, s') \<or>
                      ps_ReadPackage ps indexLoc s = (Inr (Inl err), s')) \<and>
                     IsNotFound err"
proof -
  from res obtain l where l: "NewLocator lib ''charts'' name version = Inr l"
    by (cases "NewLocator lib ''charts'' name version") (auto simp: PutChart_def)
  obtain c w0 where cp: "CreatePackage ps l content w = (c, w0)"
    by (metis surj_pair)
  from res have c: "c = None"
    by (cases c) (auto simp: PutChart_def l cp)
  obtain r w1 where ai: "addToIndex lib ps l w0 = (r, w1)"
    by (metis surj_pair)
  have "r = Return None"
    using res by (cases r) (auto simp: PutChart_def l cp c ai split: option.splits)
  then have "fst (addToIndex lib ps l w0) = Return None"
    using ai by simp
  from addToIndex_nil [OF nil this] show ?thesis .
qed

text \<open>
  C8. \<open>getIndexFile\<close> passes a nil pointer to \<^verbatim>\<open>yaml.Unmarshal\<close> and never returns an
  index. Let \<^verbatim>\<open>yaml.Unmarshal\<close> reject a nil target with an error that is not NotFound.
  Then, whenever the index package is there and its payload is read, \<open>getIndexFile\<close>
  returns an error that is not NotFound, and so do \<open>removeFromIndex\<close> and, for a valid
  locator, \<open>DeleteChart\<close>. \<open>addToIndex\<close> fails with an error that is not NotFound whenever
  the chart's package is read, loaded and digested and the index package is then found;
  so does \<open>PutChart\<close>, which creates the chart's package first. \<open>removeFromIndex\<close> and
  \<open>DeleteChart\<close> never return nil, and \<open>addToIndex\<close> and \<open>PutChart\<close> return nil only when a
  read of the index package ends in NotFound.
\<close>

theorem index_file_never_loaded:
  assumes "\<forall>data. \<exists>e. yaml_Unmarshal lib data None = Some e \<and> \<not> IsNotFound e"
  shows
  "(\<forall>indexFile. fst (getIndexFile lib ps w) \<noteq> Inr (Some indexFile))
   \<and> (\<forall>data s'. ps_ReadPackage ps indexLoc (store w) = (Inr (Inr data), s') \<longrightarrow>
         (\<exists>e. fst (getIndexFile lib ps w) = Inl e \<and> \<not> IsNotFound e) \<and>
         (\<exists>e. fst (removeFromIndex lib ps chartName chartVersion w) = Return (Some e) \<and>
              \<not> IsNotFound e) \<and>
         (\<forall>l. NewLocator lib ''charts'' chartName chartVersion = Inr l \<longrightarrow>
              (\<exists>e. fst (DeleteChart lib ps chartName chartVersion w) = Return (Some e) \<and>
                   \<not> IsNotFound e)))
   \<and> (\<forall>rd s1 chart rd2 s2 dig data s3.
         ps_ReadPackage ps locator (store w) = (Inr rd, s1) \<and>
         LoadArchive lib rd = Inr chart \<and>
         ps_ReadPackage ps locator s1 = (Inr rd2, s2) \<and>
         Digest lib rd2 = Inr dig \<and>
         ps_ReadPackage ps indexLoc s2 = (Inr (Inr data), s3) \<longrightarrow>
         (\<exists>e. fst (addToIndex lib ps locator w) = Return (Some e) \<and> \<not> IsNotFound e))
   \<and> (\<forall>l s0 rd s1 chart rd2 s2 dig data s3.
         NewLocator lib ''charts'' name version = Inr l \<and>
         ps_CreatePackage ps l content (store w) = (None, s0) \<and>
         ps_ReadPackage ps l s0 = (Inr rd, s1) \<and>
         LoadArchive lib rd = Inr chart \<and>
         ps_ReadPackage ps l s1 = (Inr rd2, s2) \<and>
         Digest lib rd2 = Inr dig \<and>
         ps_ReadPackage ps indexLoc s2 = (Inr (Inr data), s3) \<longrightarrow>
         (\<exists>e. fst (PutChart lib ps name version content w) = Return (Some e) \<and>
              \<not> IsNotFound e))
   \<and> fst (removeFromIndex lib ps chartName chartVersion w) \<noteq> Return None
   \<and> fst (DeleteChart lib ps chartName chartVersion w) \<noteq> Return None
   \<and> (fst (addToIndex lib ps locator w) = Return None \<or>
       fst (PutChart lib ps name version content w) = Return None \<longrightarrow>
         (\<exists>s s' err. (ps_ReadPackage ps indexLoc s = (Inl err, s') \<or>
                       ps_ReadPackage ps indexLoc s = (Inr (Inl err), s')) \<and>
                      IsNotFound err))"
proof (intro conjI allI impI; (elim conjE)?)
  fix indexFile
  show "fst (getIndexFile lib ps w) \<noteq> Inr (Some indexFile)"
    by (rule getIndexFile_never_index)
next
  fix data s'
  assume rd: "ps_ReadPackage ps indexLoc (store w) = (Inr (Inr data), s')"
  from assms obtain e where e: "yaml_Unmarshal lib data None = Some e" "\<not> IsNotFound e"
    by blast
  from getIndexFile_payload [OF rd e(1)] e(2)
  show "\<exists>e. fst (getIndexFile lib ps w) = Inl e \<and> \<not> IsNotFound e"
    by simp
next
  fix data s'
  assume rd: "ps_ReadPackage ps indexLoc (store w) = (Inr (Inr data), s')"
  from assms obtain e where e: "yaml_Unmarshal lib data None = Some e" "\<not> IsNotFound e"
    by blast
  from removeFromIndex_payload [OF rd e(1), of chartName chartVersion] e(2)
  show "\<exists>e. fst (removeFromIndex lib ps chartName chartVersion w) = Return (Some e) \<and>
              \<not> IsNotFound e"
    by simp
next
  fix data s' l
  assume rd: "ps_ReadPackage ps indexLoc (store w) = (Inr (Inr data), s')"
    and l: "NewLocator lib ''charts'' chartName chartVersion = Inr l"
  from assms obtain e where e: "yaml_Unmarshal lib data None = Some e" "\<not> IsNotFound e"
    by blast
  from DeleteChart_payload [OF l rd e(1)] e(2)
  show "\<exists>e. fst (DeleteChart lib ps chartName chartVersion w) = Return (Some e) \<and>
              \<not> IsNotFound e"
    by simp
next
  fix rd s1 chart rd2 s2 dig data s3
  assume chain: "ps_ReadPackage ps locator (store w) = (Inr rd, s1)"
    "LoadArchive lib rd = Inr chart"
    "ps_ReadPackage ps locator s1 = (Inr rd2, s2)"
    "Digest lib rd2 = Inr dig"
    "ps_ReadPackage ps indexLoc s2 = (Inr (Inr data), s3)"
  from assms obtain e where e: "yaml_Unmarshal lib data None = Some e" "\<not> IsNotFound e"
    by blast
  from addToIndex_payload [OF chain e] e(2)
  show "\<exists>e. fst (addToIndex lib ps locator w) = Return (Some e) \<and> \<not> IsNotFound e"
    by simp
next
  fix l s0 rd s1 chart rd2 s2 dig data s3
  assume chain: "NewLocator lib ''charts'' name version = Inr l"
    "ps_CreatePackage ps l content (store w) = (None, s0)"
    "ps_ReadPackage ps l s0 = (Inr rd, s1)"
    "LoadArchive lib rd = Inr chart"
    "ps_ReadPackage ps l s1 = (Inr rd2, s2)"
    "Digest lib rd2 = Inr dig"
    "ps_ReadPackage ps indexLoc s2 = (Inr (Inr data), s3)"
  from assms obtain e where e: "yaml_Unmarshal lib data None = Some e" "\<not> IsNotFound e"
    by blast
  from PutChart_payload [OF chain e] e(2)
  show "\<exists>e. fst (PutChart lib ps name version content w) = Return (Some e) \<and>
              \<not> IsNotFound e"
    by simp
next
  show "fst (removeFromIndex lib ps chartName chartVersion w) \<noteq> Return None"
    by (rule removeFromIndex_never_nil)
next
  show "fst (DeleteChart lib ps chartName chartVersion w) \<noteq> Return None"
    by (rule DeleteChart_never_nil)
next
  assume "fst (addToIndex lib ps locator w) = Return None \<or>
       fst (PutChart lib ps name version content w) = Return None"
  then show "\<exists>s s' err. (ps_ReadPackage ps indexLoc s = (Inl err, s') \<or>
                       ps_ReadPackage ps indexLoc s = (Inr (Inl err), s')) \<and>
                      IsNotFound err"
  proof
    assume "fst (addToIndex lib ps locator w) = Return None"
    with assms show ?thesis by (rule addToIndex_nil)
  next
    assume "fst (PutChart lib ps name version content w) = Return None"
    with assms show ?thesis by (rule PutChart_nil)
  qed
qed

theorem index_file_never_loaded_witness:
  "(\<forall>data. \<exists>e. yaml_Unmarshal ex_lib data None = Some e \<and> \<not> IsNotFound e)
   \<and> NewLocator ex_lib ''charts'' ''nginx'' ''1.0.0'' = Inr ex_chart
   \<and> ps_CreatePackage ex_ps ex_chart (Inr ''nginx-1.0.0.tgz'') ex_store_index =
       (None, ex_store_both)
   \<and> ps_ReadPackage ex_ps ex_chart ex_store_both = (Inr (Inr ''nginx-1.0.0.tgz''), ex_store_both)
   \<and> ps_ReadPackage ex_ps indexLoc ex_store_both = (Inr (Inr ''apiVersion: v1''), ex_store_both)
   \<and> (\<exists>e. fst (PutChart ex_lib ex_ps ''nginx'' ''1.0.0'' (Inr ''nginx-1.0.0.tgz'')
                  \<lparr>store = ex_store_index, trace = []\<rparr>) = Return (Some e) \<and> \<not> IsNotFound e)
   \<and> fst (PutChart ex_lib ex_ps ''nginx'' ''1.0.0'' (Inr ''nginx-1.0.0.tgz'')
             \<lparr>store = ex_store_index, trace = []\<rparr>) =
       Return (Some (Wrap0 (Wrap0 (Wrap0
         (Err Other ''json: Unmarshal(nil *repo.IndexFile)'' [])))))
   \<and> (\<exists>e. fst (DeleteChart ex_lib ex_ps ''nginx'' ''1.0.0''
                  \<lparr>store = ex_store_both, trace = []\<rparr>) = Return (Some e) \<and> \<not> IsNotFound e)
   \<and> fst (DeleteChart ex_lib ex_ps ''nginx'' ''1.0.0''
             \<lparr>store = ex_store_both, trace = []\<rparr>) =
       Return (Some (Wrap0 (Wrap0 (Wrap0
         (Err Other ''json: Unmarshal(nil *repo.IndexFile)'' [])))))"
proof -
  let ?tgz = "''nginx-1.0.0.tgz''"
  have neq: "ex_chart \<noteq> indexLoc"
    by (simp add: ex_chart_def indexLoc_def)
  have nil: "\<forall>data. \<exists>e. yaml_Unmarshal ex_lib data None = Some e \<and> \<not> IsNotFound e"
    by (simp add: ex_lib_def)
  have l: "NewLocator ex_lib ''charts'' ''nginx'' ''1.0.0'' = Inr ex_chart"
    by (simp add: ex_lib_def ex_chart_def)
  have both: "ex_store_both = ex_store_index(ex_chart \<mapsto> ?tgz)"
    using neq by (auto simp: ex_store_both_def ex_store_index_def fun_eq_iff)
  have cp: "ps_CreatePackage ex_ps ex_chart (Inr ?tgz) ex_store_index = (None, ex_store_both)"
    using neq by (simp add: ex_ps_def both) (simp add: ex_store_index_def)
  have rc: "ps_ReadPackage ex_ps ex_chart ex_store_both = (Inr (Inr ?tgz), ex_store_both)"
    by (simp add: ex_ps_def both)
  have ri: "ps_ReadPackage ex_ps indexLoc ex_store_both =
              (Inr (Inr ''apiVersion: v1''), ex_store_both)"
    using neq by (simp add: ex_ps_def ex_store_both_def)
  have la: "LoadArchive ex_lib (Inr ?tgz) =
              Inr \<lparr>Metadata = \<lparr>md_Name = ''nginx'', md_Version = ''1.0.0''\<rparr>\<rparr>"
    and dg: "Digest ex_lib (Inr ?tgz) = Inr (''sha256:'' @ ?tgz)"
    and un: "yaml_Unmarshal ex_lib ''apiVersion: v1'' None =
              Some (Err Other ''json: Unmarshal(nil *repo.IndexFile)'' [])"
    by (simp_all add: ex_lib_def)
  note t = index_file_never_loaded
      [where lib = ex_lib and ps = ex_ps and chartName = "''nginx''"
         and chartVersion = "''1.0.0''" and name = "''nginx''" and version = "''1.0.0''"
         and content = "Inr ?tgz", OF nil]
  have chain: "NewLocator ex_lib ''charts'' ''nginx'' ''1.0.0'' = Inr ex_chart \<and>
      ps_CreatePackage ex_ps ex_chart (Inr ?tgz)
        (store \<lparr>store = ex_store_index, trace = []\<rparr>) = (None, ex_store_both) \<and>
      ps_ReadPackage ex_ps ex_chart ex_store_both = (Inr (Inr ?tgz), ex_store_both) \<and>
      LoadArchive ex_lib (Inr ?tgz) =
        Inr \<lparr>Metadata = \<lparr>md_Name = ''nginx'', md_Version = ''1.0.0''\<rparr>\<rparr> \<and>
      ps_ReadPackage ex_ps ex_chart ex_store_both = (Inr (Inr ?tgz), ex_store_both) \<and>
      Digest ex_lib (Inr ?tgz) = Inr (''sha256:'' @ ?tgz) \<and>
      ps_ReadPackage ex_ps indexLoc ex_store_both =
        (Inr (Inr ''apiVersion: v1''), ex_store_both)"
    using l cp rc la dg ri by simp
  have put: "\<exists>e. fst (PutChart ex_lib ex_ps ''nginx'' ''1.0.0'' (Inr ?tgz)
                  \<lparr>store = ex_store_index, trace = []\<rparr>) = Return (Some e) \<and> \<not> IsNotFound e"
    by (rule t [where w = "\<lparr>store = ex_store_index, trace = []\<rparr>",
                THEN conjunct2, THEN conjunct2, THEN conjunct2, THEN conjunct1, rule_format,
                OF chain])
  have putv: "fst (PutChart ex_lib ex_ps ''nginx'' ''1.0.0'' (Inr ?tgz)
             \<lparr>store = ex_store_index, trace = []\<rparr>) =
       Return (Some (Wrap0 (Wrap0 (Wrap0
         (Err Other ''json: Unmarshal(nil *repo.IndexFile)'' [])))))"
  proof -
    have cp': "ps_CreatePackage ex_ps ex_chart (Inr ?tgz)
                 (store \<lparr>store = ex_store_index, trace = []\<rparr>) = (None, ex_store_both)"
      using cp by simp
    have "\<not> IsNotFound (Err Other ''json: Unmarshal(nil *repo.IndexFile)'' [])"
      by simp
    from PutChart_payload [OF l cp' rc la rc dg ri un this] show ?thesis .
  qed
  have ri': "ps_ReadPackage ex_ps indexLoc (store \<lparr>store = ex_store_both, trace = []\<rparr>) =
              (Inr (Inr ''apiVersion: v1''), ex_store_both)"
    using ri by simp
  have del: "\<exists>e. fst (DeleteChart ex_lib ex_ps ''nginx'' ''1.0.0''
                  \<lparr>store = ex_store_both, trace = []\<rparr>) = Return (Some e) \<and> \<not> IsNotFound e"
    by (rule t [where w = "\<lparr>store = ex_store_both, trace = []\<rparr>",
                THEN conjunct2, THEN conjunct1, rule_format, OF ri',
                THEN conjunct2, THEN conjunct2, rule_format, OF l])
  have delv: "fst (DeleteChart ex_lib ex_ps ''nginx'' ''1.0.0''
             \<lparr>store = ex_store_both, trace = []\<rparr>) =
       Return (Some (Wrap0 (Wrap0 (Wrap0
         (Err Other ''json: Unmarshal(nil *repo.IndexFile)'' [])))))"
    by (rule DeleteChart_payload [OF l ri' un])
  from nil l cp rc ri put putv del delv show ?thesis
    by blast
qed

end
